theory Spec2Isabelle
  imports
    Complex_Main
    "HOL-Library.AList"
    "HOL-Library.Char_ord"
    "HOL-Library.List_Lexorder"
    "HOL-Library.Product_Lexorder"
begin

section \<open>Byte strings and the socket file\<close>

text \<open>
  A Python \<^verbatim>\<open>bytes\<close> object is a list of 8-bit characters. A Python \<^verbatim>\<open>str\<close> is kept as
  the list of bytes of its UTF-8 encoding, so that \<^verbatim>\<open>encode('utf-8')\<close> is the identity.
  The reading side of the socket file is the list of bytes that are still to arrive before
  the peer closes the connection; every read returns what it took and what is left.
\<close>

type_synonym bytes = string

abbreviation CR :: char where "CR \<equiv> CHR 0x0D"
abbreviation LF :: char where "LF \<equiv> CHR 0x0A"
abbreviation CRLF :: bytes where "CRLF \<equiv> [CR, LF]"

text \<open>\<^verbatim>\<open>sf.readline()\<close>: up to and including the next LF, or to the end of the stream.\<close>

fun readline :: "bytes \<Rightarrow> bytes \<times> bytes" where
  "readline [] = ([], [])"
| "readline (c # cs) =
     (if c = LF then ([c], cs) else (case readline cs of (l, r) \<Rightarrow> (c # l, r)))"

text \<open>\<^verbatim>\<open>line.rstrip(b'\r\n')\<close>: drops every trailing byte that is CR or LF.\<close>

definition rstrip :: "bytes \<Rightarrow> bytes" where
  "rstrip line = rev (dropWhile (\<lambda>c. c = CR \<or> c = LF) (rev line))"

datatype pyfloat = Finite rat | PosInf | NegInf | NaN

datatype pymsg = MStr string | MBytes bytes

text \<open>
  The exceptions that the modelled code raises. \<open>Error\<close> is the program's own class; the
  others are Python's. \<open>Unmodelled\<close> is not an exception of the program: the dispatcher
  returns it for a request that the model does not cover (a key or a file name that is not a
  byte string, a command name that is a \<^verbatim>\<open>str\<close>).
\<close>

datatype exn =
    Error pymsg
  | EOFError
  | ValueError
  | TypeError
  | OverflowError
  | MemoryError
  | RecursionError
  | KeyError
  | AttributeError
  | ClientQuit
  | Shutdown
  | Unmodelled

text \<open>
  The interpreter is CPython 3.11 on a 64-bit machine, with its settings as they come. Three
  of its limits can be reached by the bytes that a peer sends or by the values that are
  written, and are part of the model. A conversion between an integer and its decimal text
  is refused above \<open>max_str_digits\<close> digits. A read of \<open>n\<close> bytes allocates the buffer of the
  result first: a size that is no machine index, or that leaves no room for the header of a
  byte string, is refused with \<^verbatim>\<open>OverflowError\<close>, and a buffer that the allocator does not
  grant with \<^verbatim>\<open>MemoryError\<close>; the largest size that is granted depends on the machine and is
  the parameter \<open>limit\<close> of \<open>py_read\<close>. A call of a function written in Python needs a frame,
  and is refused with \<^verbatim>\<open>RecursionError\<close> when the recursion limit leaves none; the calls of
  built-in functions and methods need none. Every function below that calls Python
  functions takes the number \<open>frames\<close> of calls that can still be nested inside it, and
  \<open>call_frame frames r\<close> is the result of a call whose body returns \<open>r\<close>. Every other
  allocation is taken to succeed.
\<close>

definition call_frame :: "nat \<Rightarrow> exn + 'a \<Rightarrow> exn + 'a" where
  "call_frame frames r = (if frames = 0 then Inl RecursionError else r)"

lemma call_frame_cong [fundef_cong]:
  "frames = frames' \<Longrightarrow> (frames' \<noteq> 0 \<Longrightarrow> r = r') \<Longrightarrow> call_frame frames r = call_frame frames' r'"
  by (simp add: call_frame_def)

text \<open>
  \<^verbatim>\<open>sf.read(n)\<close> on the buffered socket file. The size is converted to a machine index
  first (\<^verbatim>\<open>OverflowError\<close> outside 64 bits); a size below \<open>-1\<close> is refused with
  \<^verbatim>\<open>ValueError\<close>; \<open>-1\<close> reads to the end of the stream; otherwise the buffer is allocated
  (\<open>max_bytes_size\<close> is the largest size of a byte string, the largest index less the 33
  bytes of the object's header) and the read returns \<open>n\<close> bytes, or fewer when the stream
  ends first.
\<close>

definition max_bytes_size :: int where
  "max_bytes_size = 2 ^ 63 - 34"

definition py_read :: "int \<Rightarrow> int \<Rightarrow> bytes \<Rightarrow> exn + bytes \<times> bytes" where
  "py_read limit n sf =
     (if n < - (2 ^ 63) \<or> 2 ^ 63 \<le> n then Inl OverflowError
      else if n < - 1 then Inl ValueError
      else if n = - 1 then Inr (sf, [])
      else if max_bytes_size < n then Inl OverflowError
      else if limit < n then Inl MemoryError
      else Inr (take (nat n) sf, drop (nat n) sf))"

text \<open>\<^verbatim>\<open>data[:-2]\<close>\<close>

definition drop_last2 :: "bytes \<Rightarrow> bytes" where
  "drop_last2 data = take (length data - 2) data"

subsection \<open>Decimal numbers\<close>

definition is_digit :: "char \<Rightarrow> bool" where
  "is_digit c = (CHR ''0'' \<le> c \<and> c \<le> CHR ''9'')"

definition digit_val :: "char \<Rightarrow> nat" where
  "digit_val c = of_char c - 48"

definition digit_chr :: "nat \<Rightarrow> char" where
  "digit_chr d = ''0123456789'' ! d"

definition is_space :: "char \<Rightarrow> bool" where
  "is_space c = (c = CHR '' '' \<or> c = CHR 0x09 \<or> c = LF \<or> c = CHR 0x0B \<or> c = CHR 0x0C \<or> c = CR)"

definition strip :: "bytes \<Rightarrow> bytes" where
  "strip s = rev (dropWhile is_space (rev (dropWhile is_space s)))"

text \<open>
  The digits of \<^verbatim>\<open>int(b)\<close> after the sign: decimal digits, where a single underscore may
  stand between two digits.
\<close>

fun digits_acc :: "nat \<Rightarrow> bytes \<Rightarrow> nat option" where
  "digits_acc acc [] = Some acc"
| "digits_acc acc (c # cs) =
     (if is_digit c then digits_acc (10 * acc + digit_val c) cs
      else if c = CHR ''_'' then
        (case cs of
           [] \<Rightarrow> None
         | d # ds \<Rightarrow> if is_digit d then digits_acc (10 * acc + digit_val d) ds else None)
      else None)"

definition parse_nat :: "bytes \<Rightarrow> nat option" where
  "parse_nat s =
     (case s of
        [] \<Rightarrow> None
      | c # cs \<Rightarrow> if is_digit c then digits_acc (digit_val c) cs else None)"

text \<open>
  \<^verbatim>\<open>int(b)\<close> for a byte string: surrounding white space is dropped, one sign is allowed.
  \<open>None\<close> stands for \<^verbatim>\<open>ValueError\<close>, which is also raised for a text of more than
  \<open>max_str_digits\<close> digits (leading zeros count; the sign, the underscores and the white
  space do not).
\<close>

definition max_str_digits :: nat where
  "max_str_digits = 4300"

definition py_int :: "bytes \<Rightarrow> int option" where
  "py_int b =
     (case strip b of
        [] \<Rightarrow> None
      | c # cs \<Rightarrow>
          if max_str_digits < length (filter is_digit (c # cs)) then None
          else if c = CHR ''-'' then map_option (\<lambda>n. - int n) (parse_nat cs)
          else if c = CHR ''+'' then map_option int (parse_nat cs)
          else map_option int (parse_nat (c # cs)))"

text \<open>
  The \<^verbatim>\<open>%d\<close> conversion of an integer, which is also its \<^verbatim>\<open>str\<close>: the decimal text
  \<open>decimal n\<close>, or \<^verbatim>\<open>ValueError\<close> when the integer has more than \<open>max_str_digits\<close> digits.
\<close>

fun digits :: "nat \<Rightarrow> bytes" where
  "digits n = (if n < 10 then [digit_chr n] else digits (n div 10) @ [digit_chr (n mod 10)])"

declare digits.simps [simp del]

definition decimal :: "int \<Rightarrow> bytes" where
  "decimal n = (if n < 0 then CHR ''-'' # digits (nat (- n)) else digits (nat n))"

definition int_fits :: "int \<Rightarrow> bool" where
  "int_fits n = (length (digits (nat \<bar>n\<bar>)) \<le> max_str_digits)"

definition fmt_d :: "int \<Rightarrow> exn + bytes" where
  "fmt_d n = (if int_fits n then Inr (decimal n) else Inl ValueError)"

text \<open>
  \<^verbatim>\<open>int(x)\<close> of a float, which is also what \<^verbatim>\<open>%d\<close> does to a float: truncation
  towards zero; infinities and NaN are refused.
\<close>

definition float_int :: "pyfloat \<Rightarrow> exn + int" where
  "float_int f =
     (case f of
        Finite q \<Rightarrow> Inr (if 0 \<le> q then \<lfloor>q\<rfloor> else \<lceil>q\<rceil>)
      | PosInf \<Rightarrow> Inl OverflowError
      | NegInf \<Rightarrow> Inl OverflowError
      | NaN \<Rightarrow> Inl ValueError)"

section \<open>Values\<close>

text \<open>
  The Python values that travel through the codec and the engine. \<open>PList\<close> stands for a
  list, tuple or deque, \<open>PDict\<close> for a dict in insertion order, \<open>PSet\<close> for a set (its
  elements listed in the order of insertion; Python fixes no order), \<open>PError\<close> for an
  instance of the program's \<open>Error\<close> class.
\<close>

datatype pyval =
    PBytes bytes
  | PStr string
  | PInt int
  | PFloat pyfloat
  | PNone
  | PList "pyval list"
  | PDict "(pyval \<times> pyval) list"
  | PSet "pyval list"
  | PError pymsg

text \<open>Lists, dicts and sets cannot be hashed: using one as a dict key or set member raises \<^verbatim>\<open>TypeError\<close>.\<close>

fun hashable :: "pyval \<Rightarrow> bool" where
  "hashable (PList _) = False"
| "hashable (PDict _) = False"
| "hashable (PSet _) = False"
| "hashable _ = True"

text \<open>
  Equality of two hashable values as dict keys or set members. Integers and floats are
  compared by value. An \<open>Error\<close> has no equality of its own and every decoded error is a new
  object, so two errors are never equal; the same holds for two NaN objects.
\<close>

fun key_eq :: "pyval \<Rightarrow> pyval \<Rightarrow> bool" where
  "key_eq (PBytes a) (PBytes b) = (a = b)"
| "key_eq (PStr a) (PStr b) = (a = b)"
| "key_eq (PInt a) (PInt b) = (a = b)"
| "key_eq (PInt a) (PFloat f) = (f = Finite (of_int a))"
| "key_eq (PFloat f) (PInt a) = (f = Finite (of_int a))"
| "key_eq (PFloat f) (PFloat g) = (f = g \<and> f \<noteq> NaN)"
| "key_eq PNone PNone = True"
| "key_eq _ _ = False"

text \<open>\<^verbatim>\<open>d[k] = v\<close>: an existing key keeps its place (and its key object), a new one goes last.\<close>

fun dict_setitem :: "pyval \<Rightarrow> 'v \<Rightarrow> (pyval \<times> 'v) list \<Rightarrow> (pyval \<times> 'v) list" where
  "dict_setitem k v [] = [(k, v)]"
| "dict_setitem k v ((k', v') # d) =
     (if key_eq k' k then (k', v) # d else (k', v') # dict_setitem k v d)"

text \<open>\<^verbatim>\<open>d.get(k)\<close>\<close>

fun dict_get :: "pyval \<Rightarrow> (pyval \<times> pyval) list \<Rightarrow> pyval" where
  "dict_get k [] = PNone"
| "dict_get k ((k', v') # d) = (if key_eq k' k then v' else dict_get k d)"

text \<open>\<^verbatim>\<open>dict(pairs)\<close>, started from the dict built so far.\<close>

fun dict_of_pairs :: "(pyval \<times> pyval) list \<Rightarrow> (pyval \<times> pyval) list \<Rightarrow> exn + (pyval \<times> pyval) list" where
  "dict_of_pairs d [] = Inr d"
| "dict_of_pairs d ((k, v) # ps) =
     (if hashable k then dict_of_pairs (dict_setitem k v d) ps else Inl TypeError)"

text \<open>\<^verbatim>\<open>x in s\<close> and \<^verbatim>\<open>s.add(x)\<close> for a set of hashable values.\<close>

definition set_contains :: "pyval list \<Rightarrow> pyval \<Rightarrow> bool" where
  "set_contains s x = list_ex (\<lambda>y. key_eq y x) s"

definition set_add :: "pyval \<Rightarrow> pyval list \<Rightarrow> pyval list" where
  "set_add x s = (if set_contains s x then s else s @ [x])"

text \<open>\<^verbatim>\<open>set(items)\<close>, started from the set built so far.\<close>

fun set_of_items :: "pyval list \<Rightarrow> pyval list \<Rightarrow> exn + pyval list" where
  "set_of_items s [] = Inr s"
| "set_of_items s (x # xs) =
     (if hashable x then set_of_items (set_add x s) xs else Inl TypeError)"

text \<open>\<^verbatim>\<open>elements[::2]\<close>; \<^verbatim>\<open>elements[1::2]\<close> is the same slice of \<^verbatim>\<open>elements[1:]\<close>.\<close>

fun slice2 :: "'a list \<Rightarrow> 'a list" where
  "slice2 [] = []"
| "slice2 [x] = [x]"
| "slice2 (x # y # xs) = x # slice2 xs"

section \<open>The protocol codec\<close>

subsection \<open>Decoding: \<open>ProtocolHandler.handle_request\<close> and its handlers\<close>

text \<open>
  Each handler takes the bytes still to be read and returns the decoded value with the bytes
  left over, or the exception it raises. What the decoder takes from the interpreter and
  the machine is the record \<open>runtime\<close>: the conversion \<open>float_of\<close> of Python's \<^verbatim>\<open>float(b)\<close>,
  which rounds a decimal literal to the nearest double (\<open>None\<close> when it raises
  \<^verbatim>\<open>ValueError\<close>), and the largest size \<open>read_limit\<close> of a read buffer that the allocator
  grants.
\<close>

record runtime =
  float_of :: "bytes \<Rightarrow> pyfloat option"
  read_limit :: int

definition handle_simple_string :: "bytes \<Rightarrow> exn + pyval \<times> bytes" where
  "handle_simple_string sf = (case readline sf of (line, sf') \<Rightarrow> Inr (PBytes (rstrip line), sf'))"

definition handle_error :: "bytes \<Rightarrow> exn + pyval \<times> bytes" where
  "handle_error sf = (case readline sf of (line, sf') \<Rightarrow> Inr (PError (MBytes (rstrip line)), sf'))"

definition handle_integer :: "runtime \<Rightarrow> bytes \<Rightarrow> exn + pyval \<times> bytes" where
  "handle_integer rt sf =
     (case readline sf of (line, sf') \<Rightarrow>
        (let number = rstrip line in
         if CHR ''.'' \<in> set number then
           (case float_of rt number of None \<Rightarrow> Inl ValueError | Some f \<Rightarrow> Inr (PFloat f, sf'))
         else
           (case py_int number of None \<Rightarrow> Inl ValueError | Some n \<Rightarrow> Inr (PInt n, sf'))))"

definition handle_string :: "runtime \<Rightarrow> bytes \<Rightarrow> exn + pyval \<times> bytes" where
  "handle_string rt sf =
     (case readline sf of (line, sf') \<Rightarrow>
        (case py_int (rstrip line) of
           None \<Rightarrow> Inl ValueError
         | Some len \<Rightarrow>
             if len = - 1 then Inr (PNone, sf')
             else (case py_read (read_limit rt) (len + 2) sf' of
                     Inl e \<Rightarrow> Inl e
                   | Inr (data, sf'') \<Rightarrow> Inr (PBytes (drop_last2 data), sf''))))"

text \<open>\<^verbatim>\<open>num = int(sf.readline().rstrip(b'\r\n'))\<close>, the first line of an array, a mapping or a set.\<close>

definition read_num :: "bytes \<Rightarrow> exn + int \<times> bytes" where
  "read_num sf =
     (case readline sf of (line, sf') \<Rightarrow>
        (case py_int (rstrip line) of None \<Rightarrow> Inl ValueError | Some num \<Rightarrow> Inr (num, sf')))"

text \<open>
  \<open>handle_request\<close> reads the tag byte and calls the handler of the tag. The handlers of
  arrays, mappings and sets (\<open>handle_array\<close>, \<open>handle_dict\<close>, \<open>handle_set\<close>) call
  \<open>handle_request\<close> again and are written out in its branches for \<^verbatim>\<open>*\<close>, \<^verbatim>\<open>%\<close> and \<^verbatim>\<open>&\<close>;
  \<open>handle_requests rt frames n sf\<close> is the body of their list comprehension
  \<^verbatim>\<open>[self.handle_request(sf) for _ in range(n)]\<close>, which is empty for \<open>n \<le> 0\<close> and stops at the
  first exception. The last branch is the \<^verbatim>\<open>except KeyError\<close> for a byte that is no tag.
  Three calls are nested for each container: the handler, its list comprehension (a
  function of its own, called also when the range is empty) and \<open>handle_request\<close> for an
  element. The reads and conversions inside a handler are calls of built-ins.
\<close>

function handle_request :: "runtime \<Rightarrow> nat \<Rightarrow> bytes \<Rightarrow> exn + pyval \<times> bytes"
  and handle_requests :: "runtime \<Rightarrow> nat \<Rightarrow> int \<Rightarrow> bytes \<Rightarrow> exn + pyval list \<times> bytes"
where
  "handle_request rt frames socket_file =
     (case socket_file of
        [] \<Rightarrow> Inl EOFError
      | first_byte # sf \<Rightarrow>
          if first_byte = CHR ''+'' then call_frame frames (handle_simple_string sf)
          else if first_byte = CHR ''-'' then call_frame frames (handle_error sf)
          else if first_byte = CHR '':'' then call_frame frames (handle_integer rt sf)
          else if first_byte = CHR ''$'' then call_frame frames (handle_string rt sf)
          else if first_byte = CHR ''*'' then
            call_frame frames
              (case read_num sf of
                 Inl e \<Rightarrow> Inl e
               | Inr (num, sf') \<Rightarrow>
                   call_frame (frames - 1)
                     (case handle_requests rt (frames - 2) num sf' of
                        Inl e \<Rightarrow> Inl e
                      | Inr (elements, sf'') \<Rightarrow> Inr (PList elements, sf'')))
          else if first_byte = CHR ''%'' then
            call_frame frames
              (case read_num sf of
                 Inl e \<Rightarrow> Inl e
               | Inr (num, sf') \<Rightarrow>
                   call_frame (frames - 1)
                     (case handle_requests rt (frames - 2) (num * 2) sf' of
                        Inl e \<Rightarrow> Inl e
                      | Inr (elements, sf'') \<Rightarrow>
                          (case dict_of_pairs [] (zip (slice2 elements) (slice2 (drop 1 elements))) of
                             Inl e \<Rightarrow> Inl e
                           | Inr d \<Rightarrow> Inr (PDict d, sf''))))
          else if first_byte = CHR ''&'' then
            call_frame frames
              (case read_num sf of
                 Inl e \<Rightarrow> Inl e
               | Inr (num, sf') \<Rightarrow>
                   call_frame (frames - 1)
                     (case handle_requests rt (frames - 2) num sf' of
                        Inl e \<Rightarrow> Inl e
                      | Inr (elements, sf'') \<Rightarrow>
                          (case set_of_items [] elements of
                             Inl e \<Rightarrow> Inl e
                           | Inr s \<Rightarrow> Inr (PSet s, sf''))))
          else (case readline sf of (rest, sf') \<Rightarrow> Inr (PBytes (first_byte # rstrip rest), sf')))"
| "handle_requests rt frames n sf =
     (if n \<le> 0 then Inr ([], sf)
      else (case call_frame frames (handle_request rt (frames - 1) sf) of
              Inl e \<Rightarrow> Inl e
            | Inr (x, sf') \<Rightarrow>
                (case handle_requests rt frames (n - 1) sf' of
                   Inl e \<Rightarrow> Inl e
                 | Inr (xs, sf'') \<Rightarrow> Inr (x # xs, sf''))))"
  by pat_completeness auto
termination
  by (relation "inv_image (less_than <*lex*> less_than)
         (case_sum (\<lambda>(rt, frames, s). (frames, 0)) (\<lambda>(rt, frames, n, s). (Suc frames, nat n)))")
     (auto intro: wf_inv_image wf_lex_prod wf_less_than)

declare handle_request.simps [simp del] handle_requests.simps [simp del]

subsection \<open>Encoding: \<open>ProtocolHandler._write\<close>\<close>

text \<open>
  \<^verbatim>\<open>str(b)\<close> of a byte string is its literal: \<^verbatim>\<open>b'...'\<close>, with the quote and the backslash
  escaped and every byte outside printable ASCII written as an escape.
\<close>

definition hex_digit :: "nat \<Rightarrow> char" where
  "hex_digit d = ''0123456789abcdef'' ! d"

definition repr_byte :: "char \<Rightarrow> char \<Rightarrow> bytes" where
  "repr_byte quote c =
     (if c = quote \<or> c = CHR 0x5C then [CHR 0x5C, c]
      else if c = CHR 0x09 then [CHR 0x5C, CHR ''t'']
      else if c = LF then [CHR 0x5C, CHR ''n'']
      else if c = CR then [CHR 0x5C, CHR ''r'']
      else if (of_char c :: nat) < 32 \<or> 127 \<le> (of_char c :: nat) then
        [CHR 0x5C, CHR ''x'', hex_digit (of_char c div 16), hex_digit (of_char c mod 16)]
      else [c])"

definition bytes_repr :: "bytes \<Rightarrow> string" where
  "bytes_repr b =
     (let quote = (if CHR 0x27 \<in> set b \<and> CHR 0x22 \<notin> set b then CHR 0x22 else CHR 0x27)
      in CHR ''b'' # quote # concat (map (repr_byte quote) b) @ [quote])"

text \<open>\<^verbatim>\<open>str(data.message)\<close>\<close>

definition msg_str :: "pymsg \<Rightarrow> string" where
  "msg_str m = (case m of MStr s \<Rightarrow> s | MBytes b \<Rightarrow> bytes_repr b)"

text \<open>
  \<open>write_data\<close> is \<^verbatim>\<open>_write\<close>: it returns the bytes appended to the buffer, or the exception
  raised. The branches stand in the order of the source's \<^verbatim>\<open>isinstance\<close> tests; \<^verbatim>\<open>%d\<close>
  formats an integer and a float alike. The header of a container is written before its
  elements, and each element is written by a nested call of \<^verbatim>\<open>_write\<close>. The source's last
  branch (\<^verbatim>\<open>+OK\<close>) is for objects that are none of these, which no value of \<open>pyval\<close> is.
\<close>

definition frame_of :: "char \<Rightarrow> int \<Rightarrow> bytes \<Rightarrow> exn + bytes" where
  "frame_of tag n body =
     (case fmt_d n of Inl e \<Rightarrow> Inl e | Inr header \<Rightarrow> Inr (tag # header @ CRLF @ body))"

function (sequential) write_data :: "nat \<Rightarrow> pyval \<Rightarrow> exn + bytes"
  and write_items :: "nat \<Rightarrow> pyval list \<Rightarrow> exn + bytes"
  and write_pairs :: "nat \<Rightarrow> (pyval \<times> pyval) list \<Rightarrow> exn + bytes"
where
  "write_data frames (PBytes data) = frame_of (CHR ''$'') (int (length data)) (data @ CRLF)"
| "write_data frames (PStr data) = frame_of (CHR ''$'') (int (length data)) (data @ CRLF)"
| "write_data frames (PInt n) = frame_of (CHR '':'') n []"
| "write_data frames (PFloat f) =
     (case float_int f of Inl e \<Rightarrow> Inl e | Inr n \<Rightarrow> frame_of (CHR '':'') n [])"
| "write_data frames (PError message) = Inr (CHR ''-'' # msg_str message @ CRLF)"
| "write_data frames (PList items) =
     (case frame_of (CHR ''*'') (int (length items)) [] of
        Inl e \<Rightarrow> Inl e
      | Inr header \<Rightarrow>
          (case write_items frames items of Inl e \<Rightarrow> Inl e | Inr body \<Rightarrow> Inr (header @ body)))"
| "write_data frames (PDict d) =
     (case frame_of (CHR ''%'') (int (length d)) [] of
        Inl e \<Rightarrow> Inl e
      | Inr header \<Rightarrow>
          (case write_pairs frames d of Inl e \<Rightarrow> Inl e | Inr body \<Rightarrow> Inr (header @ body)))"
| "write_data frames (PSet items) =
     (case frame_of (CHR ''&'') (int (length items)) [] of
        Inl e \<Rightarrow> Inl e
      | Inr header \<Rightarrow>
          (case write_items frames items of Inl e \<Rightarrow> Inl e | Inr body \<Rightarrow> Inr (header @ body)))"
| "write_data frames PNone = Inr (''$-1'' @ CRLF)"
| "write_items frames [] = Inr []"
| "write_items frames (item # items) =
     (case call_frame frames (write_data (frames - 1) item) of
        Inl e \<Rightarrow> Inl e
      | Inr b \<Rightarrow> (case write_items frames items of Inl e \<Rightarrow> Inl e | Inr bs \<Rightarrow> Inr (b @ bs)))"
| "write_pairs frames [] = Inr []"
| "write_pairs frames ((k, v) # d) =
     (case call_frame frames (write_data (frames - 1) k) of
        Inl e \<Rightarrow> Inl e
      | Inr bk \<Rightarrow>
          (case call_frame frames (write_data (frames - 1) v) of
             Inl e \<Rightarrow> Inl e
           | Inr bv \<Rightarrow>
               (case write_pairs frames d of Inl e \<Rightarrow> Inl e | Inr bs \<Rightarrow> Inr (bk @ bv @ bs))))"
  by pat_completeness auto
termination
  by (relation "measure (case_sum (\<lambda>(frames, v). size v)
         (case_sum (\<lambda>(frames, xs). size_list size xs)
            (\<lambda>(frames, d). size_list (size_prod size size) d)))")
     auto



section \<open>The key-space engine: \<open>DBLiteServer\<close>\<close>

text \<open>
  \<open>Value\<close> is the named tuple of the source, with its tag constants. Keys are byte strings.
  A dict is the list of its items in insertion order: \<open>map_of\<close> looks a key up,
  \<open>AList.update\<close> is \<^verbatim>\<open>d[k] = v\<close> (an existing key keeps its place, a new one goes last) and
  \<open>AList.delete\<close> is \<^verbatim>\<open>d.pop(k, None)\<close>.
\<close>

record Value =
  data_type :: nat
  val :: pyval

abbreviation (input) KV :: nat where "KV \<equiv> 0"
abbreviation (input) HASH :: nat where "HASH \<equiv> 1"
abbreviation (input) QUEUE :: nat where "QUEUE \<equiv> 2"
abbreviation (input) SET :: nat where "SET \<equiv> 3"

record Stats =
  active_connections :: int
  commands_processed :: int
  command_errors :: int
  connections :: int

text \<open>
  The list \<open>expiry\<close> is only ever touched through \<^verbatim>\<open>heapq\<close>, so it is kept as the list of the
  entries of the heap, in no particular order: \<^verbatim>\<open>expiry[0]\<close> is the least entry (pairs compare
  by deadline first, then by key), \<^verbatim>\<open>heappop\<close> removes it and \<^verbatim>\<open>heappush\<close> adds an entry.
  Times are seconds, as rational numbers.
\<close>

record server =
  kv :: "(bytes \<times> Value) list"
  expiry :: "(rat \<times> bytes) list"
  expiry_map :: "(bytes \<times> rat) list"
  stats :: Stats

definition heap_root :: "(rat \<times> bytes) list \<Rightarrow> rat \<times> bytes" where
  "heap_root h = Min (set h)"

definition heappop :: "(rat \<times> bytes) list \<Rightarrow> (rat \<times> bytes) list" where
  "heappop h = remove1 (heap_root h) h"

definition heappush :: "(rat \<times> bytes) list \<Rightarrow> rat \<times> bytes \<Rightarrow> (rat \<times> bytes) list" where
  "heappush h x = x # h"

text \<open>
  Every call of \<^verbatim>\<open>time.time()\<close> is an argument of the function that makes it: \<open>ts\<close> where a
  function reads the clock once, \<open>ts1\<close> and \<open>ts2\<close>, in the order of the calls, where it reads
  it twice. No caller passes \<open>ts\<close> to \<open>check_expired\<close>, so its \<open>ts\<close> is always a reading of
  the clock.
\<close>

definition check_expired :: "server \<Rightarrow> bytes \<Rightarrow> rat \<Rightarrow> bool" where
  "check_expired self key ts =
     (case map_of (expiry_map self) key of None \<Rightarrow> False | Some eta \<Rightarrow> ts > eta)"

lemma heappop_shorter: "h \<noteq> [] \<Longrightarrow> length (heappop h) < length h"
proof -
  assume "h \<noteq> []"
  then have "heap_root h \<in> set h"
    unfolding heap_root_def by (intro Min_in) auto
  then have "length (heappop h) = length h - 1"
    by (simp add: heappop_def length_remove1)
  with \<open>h \<noteq> []\<close> show ?thesis
    by (cases h) simp_all
qed

text \<open>The loop of \<open>clean_expired\<close>, with the counter \<open>n\<close> it carries.\<close>

function clean_loop :: "server \<Rightarrow> rat \<Rightarrow> nat \<Rightarrow> nat \<times> server" where
  "clean_loop self ts n =
     (if expiry self = [] then (n, self)
      else (case heap_root (expiry self) of (eta, key) \<Rightarrow>
        if eta > ts then (n, self)
        else (let self = self\<lparr>expiry := heappop (expiry self)\<rparr> in
              if map_of (expiry_map self) key = Some eta then
                clean_loop (self\<lparr>expiry_map := AList.delete key (expiry_map self),
                                  kv := AList.delete key (kv self)\<rparr>) ts (n + 1)
              else clean_loop self ts n)))"
  by pat_completeness auto
termination
  by (relation "measure (\<lambda>(self, ts, n). length (expiry self))") (auto simp: heappop_shorter)

declare clean_loop.simps [simp del]

definition clean_expired :: "server \<Rightarrow> rat \<Rightarrow> nat \<times> server" where
  "clean_expired self ts = clean_loop self ts 0"

definition unexpire :: "server \<Rightarrow> bytes \<Rightarrow> server" where
  "unexpire self key = self\<lparr>expiry_map := AList.delete key (expiry_map self)\<rparr>"

text \<open>\<^verbatim>\<open>if self.check_expired(key): self.kv.pop(key, None)\<close>\<close>

definition drop_if_expired :: "server \<Rightarrow> bytes \<Rightarrow> rat \<Rightarrow> server" where
  "drop_if_expired self key ts =
     (if check_expired self key ts then self\<lparr>kv := AList.delete key (kv self)\<rparr> else self)"

text \<open>The first two statements of the decorator's \<open>inner\<close>: the sweep, then the check of the key.\<close>

definition swept :: "server \<Rightarrow> rat \<Rightarrow> rat \<Rightarrow> bytes \<Rightarrow> server" where
  "swept self ts1 ts2 key = drop_if_expired (snd (clean_expired self ts1)) key ts2"

definition WRONGTYPE :: exn where
  "WRONGTYPE = Error (MStr ''WRONGTYPE Operation against a key holding the wrong kind of value'')"

text \<open>The empty payload that the decorator stores for a missing key. Only the three container tags are ever passed.\<close>

definition empty_val :: "nat \<Rightarrow> pyval" where
  "empty_val dt =
     (if dt = KV then PStr []
      else if dt = HASH then PDict []
      else if dt = QUEUE then PList []
      else PSet [])"

text \<open>
  The decorator. \<open>meth\<close> is the decorated method, with its arguments after the key already
  supplied; a command returns its result, or the exception it raises, together with the
  state it leaves behind.
\<close>

definition enforce_datatype ::
  "nat \<Rightarrow> bool \<Rightarrow> (server \<Rightarrow> bytes \<Rightarrow> (exn + pyval) \<times> server) \<Rightarrow>
   server \<Rightarrow> rat \<Rightarrow> rat \<Rightarrow> bytes \<Rightarrow> (exn + pyval) \<times> server" where
  "enforce_datatype dt set_missing meth self ts1 ts2 key =
     (let self = swept self ts1 ts2 key in
      case map_of (kv self) key of
        Some v \<Rightarrow> if data_type v \<noteq> dt then (Inl WRONGTYPE, self) else meth self key
      | None \<Rightarrow>
          if set_missing then
            meth (self\<lparr>kv := AList.update key \<lparr>data_type = dt, val = empty_val dt\<rparr> (kv self)\<rparr>) key
          else meth self key)"

definition kv_set :: "server \<Rightarrow> bytes \<Rightarrow> pyval \<Rightarrow> (exn + pyval) \<times> server" where
  "kv_set self key v =
     (let self = unexpire self key in
      (Inr (PStr ''OK''), self\<lparr>kv := AList.update key \<lparr>data_type = KV, val = v\<rparr> (kv self)\<rparr>))"

definition kv_get :: "server \<Rightarrow> rat \<Rightarrow> rat \<Rightarrow> bytes \<Rightarrow> (exn + pyval) \<times> server" where
  "kv_get self ts1 ts2 key =
     (let self = snd (clean_expired self ts1) in
      if check_expired self key ts2 then (Inr PNone, self\<lparr>kv := AList.delete key (kv self)\<rparr>)
      else (case map_of (kv self) key of
              Some v \<Rightarrow> (Inr (val v), self)
            | None \<Rightarrow> (Inr PNone, self)))"

definition kv_delete :: "server \<Rightarrow> rat \<Rightarrow> bytes \<Rightarrow> (exn + pyval) \<times> server" where
  "kv_delete self ts key =
     (let self = snd (clean_expired self ts) in
      if map_of (kv self) key \<noteq> None then
        (Inr (PInt 1), unexpire (self\<lparr>kv := AList.delete key (kv self)\<rparr>) key)
      else (Inr (PInt 0), self))"

definition kv_exists :: "server \<Rightarrow> rat \<Rightarrow> rat \<Rightarrow> bytes \<Rightarrow> (exn + pyval) \<times> server" where
  "kv_exists self ts1 ts2 key =
     (let self = snd (clean_expired self ts1) in
      if check_expired self key ts2 then (Inr (PInt 0), self\<lparr>kv := AList.delete key (kv self)\<rparr>)
      else (Inr (PInt (if map_of (kv self) key \<noteq> None then 1 else 0)), self))"

text \<open>
  The decorated methods. Each reads \<^verbatim>\<open>self.kv[key].value\<close>: \<^verbatim>\<open>KeyError\<close> when the key is
  missing and \<^verbatim>\<open>AttributeError\<close> when the payload is not the container the method
  expects (behind the decorator neither happens).
\<close>

definition lpush_meth :: "pyval list \<Rightarrow> server \<Rightarrow> bytes \<Rightarrow> (exn + pyval) \<times> server" where
  "lpush_meth values self key =
     (case map_of (kv self) key of
        None \<Rightarrow> (Inl KeyError, self)
      | Some v \<Rightarrow>
          (case val v of
             PList q \<Rightarrow>
               (let q = rev values @ q in
                (Inr (PInt (int (length q))), self\<lparr>kv := AList.update key (v\<lparr>val := PList q\<rparr>) (kv self)\<rparr>))
           | _ \<Rightarrow> (Inl AttributeError, self)))"

definition lpush :: "server \<Rightarrow> rat \<Rightarrow> rat \<Rightarrow> bytes \<Rightarrow> pyval list \<Rightarrow> (exn + pyval) \<times> server" where
  "lpush self ts1 ts2 key values = enforce_datatype QUEUE True (lpush_meth values) self ts1 ts2 key"

definition lpop_meth :: "server \<Rightarrow> bytes \<Rightarrow> (exn + pyval) \<times> server" where
  "lpop_meth self key =
     (case map_of (kv self) key of
        None \<Rightarrow> (Inl KeyError, self)
      | Some v \<Rightarrow>
          (case val v of
             PList q \<Rightarrow>
               (case q of
                  [] \<Rightarrow> (Inr PNone, self)
                | x # q' \<Rightarrow> (Inr x, self\<lparr>kv := AList.update key (v\<lparr>val := PList q'\<rparr>) (kv self)\<rparr>))
           | _ \<Rightarrow> (Inl AttributeError, self)))"

definition lpop :: "server \<Rightarrow> rat \<Rightarrow> rat \<Rightarrow> bytes \<Rightarrow> (exn + pyval) \<times> server" where
  "lpop self ts1 ts2 key = enforce_datatype QUEUE True lpop_meth self ts1 ts2 key"

definition hset_meth :: "pyval \<Rightarrow> pyval \<Rightarrow> server \<Rightarrow> bytes \<Rightarrow> (exn + pyval) \<times> server" where
  "hset_meth field v' self key =
     (case map_of (kv self) key of
        None \<Rightarrow> (Inl KeyError, self)
      | Some v \<Rightarrow>
          (case val v of
             PDict d \<Rightarrow>
               if hashable field then
                 (Inr (PInt 1),
                  self\<lparr>kv := AList.update key (v\<lparr>val := PDict (dict_setitem field v' d)\<rparr>) (kv self)\<rparr>)
               else (Inl TypeError, self)
           | _ \<Rightarrow> (Inl AttributeError, self)))"

definition hset :: "server \<Rightarrow> rat \<Rightarrow> rat \<Rightarrow> bytes \<Rightarrow> pyval \<Rightarrow> pyval \<Rightarrow> (exn + pyval) \<times> server" where
  "hset self ts1 ts2 key field v = enforce_datatype HASH True (hset_meth field v) self ts1 ts2 key"

definition hget_meth :: "pyval \<Rightarrow> server \<Rightarrow> bytes \<Rightarrow> (exn + pyval) \<times> server" where
  "hget_meth field self key =
     (case map_of (kv self) key of
        None \<Rightarrow> (Inl KeyError, self)
      | Some v \<Rightarrow>
          (case val v of
             PDict d \<Rightarrow> if hashable field then (Inr (dict_get field d), self) else (Inl TypeError, self)
           | _ \<Rightarrow> (Inl AttributeError, self)))"

definition hget :: "server \<Rightarrow> rat \<Rightarrow> rat \<Rightarrow> bytes \<Rightarrow> pyval \<Rightarrow> (exn + pyval) \<times> server" where
  "hget self ts1 ts2 key field = enforce_datatype HASH True (hget_meth field) self ts1 ts2 key"

text \<open>The loop of \<open>sadd\<close> over the members: an unhashable member stops it, and what was added before stays.\<close>

fun sadd_loop :: "pyval list \<Rightarrow> int \<Rightarrow> pyval list \<Rightarrow> (exn + int) \<times> pyval list" where
  "sadd_loop s added [] = (Inr added, s)"
| "sadd_loop s added (member # members) =
     (if \<not> hashable member then (Inl TypeError, s)
      else if \<not> set_contains s member then sadd_loop (s @ [member]) (added + 1) members
      else sadd_loop s added members)"

definition sadd_meth :: "pyval list \<Rightarrow> server \<Rightarrow> bytes \<Rightarrow> (exn + pyval) \<times> server" where
  "sadd_meth members self key =
     (case map_of (kv self) key of
        None \<Rightarrow> (Inl KeyError, self)
      | Some v \<Rightarrow>
          (case val v of
             PSet s \<Rightarrow>
               (case sadd_loop s 0 members of
                  (r, s') \<Rightarrow>
                    (map_sum id PInt r, self\<lparr>kv := AList.update key (v\<lparr>val := PSet s'\<rparr>) (kv self)\<rparr>))
           | _ \<Rightarrow> (Inl AttributeError, self)))"

definition sadd :: "server \<Rightarrow> rat \<Rightarrow> rat \<Rightarrow> bytes \<Rightarrow> pyval list \<Rightarrow> (exn + pyval) \<times> server" where
  "sadd self ts1 ts2 key members = enforce_datatype SET True (sadd_meth members) self ts1 ts2 key"

text \<open>
  \<^verbatim>\<open>list(self.kv[key].value)\<close> lists the members of the set in the order of its hash table,
  which Python does not fix. The model lists them in the order of insertion; what is stated
  about the result of \<open>smembers\<close> below is stated for the empty list only, or for the failure.
\<close>

definition smembers_meth :: "server \<Rightarrow> bytes \<Rightarrow> (exn + pyval) \<times> server" where
  "smembers_meth self key =
     (case map_of (kv self) key of
        None \<Rightarrow> (Inl KeyError, self)
      | Some v \<Rightarrow>
          (case val v of
             PSet s \<Rightarrow> (Inr (PList s), self)
           | _ \<Rightarrow> (Inl AttributeError, self)))"

definition smembers :: "server \<Rightarrow> rat \<Rightarrow> rat \<Rightarrow> bytes \<Rightarrow> (exn + pyval) \<times> server" where
  "smembers self ts1 ts2 key = enforce_datatype SET True smembers_meth self ts1 ts2 key"

text \<open>\<^verbatim>\<open>int(seconds)\<close> for the argument of \<open>expire\<close>, whatever value the request carried.\<close>

definition int_of_pyval :: "pyval \<Rightarrow> exn + int" where
  "int_of_pyval x =
     (case x of
        PInt n \<Rightarrow> Inr n
      | PBytes b \<Rightarrow> (case py_int b of None \<Rightarrow> Inl ValueError | Some n \<Rightarrow> Inr n)
      | PStr s \<Rightarrow> (case py_int s of None \<Rightarrow> Inl ValueError | Some n \<Rightarrow> Inr n)
      | PFloat f \<Rightarrow> float_int f
      | _ \<Rightarrow> Inl TypeError)"

text \<open>
  \<open>expire\<close> adds the integer to the clock reading, a float: the integer is converted to a
  float first, which raises \<^verbatim>\<open>OverflowError\<close> from \<open>float_limit\<close> on (the least integer that
  rounds to a double beyond the largest finite one). Below that the sum is kept exact: the
  rounding of the conversion and of the float addition is not part of the model, so a
  deadline of the model can differ from the double of the program in its last binary digit.
\<close>

definition float_limit :: int where
  "float_limit = 2 ^ 1024 - 2 ^ 970"

definition expire :: "server \<Rightarrow> rat \<Rightarrow> bytes \<Rightarrow> pyval \<Rightarrow> (exn + pyval) \<times> server" where
  "expire self ts key seconds =
     (if map_of (kv self) key = None then (Inr (PInt 0), self)
      else (case int_of_pyval seconds of
              Inl e \<Rightarrow> (Inl e, self)
            | Inr n \<Rightarrow>
                if float_limit \<le> \<bar>n\<bar> then (Inl OverflowError, self)
                else
                  (let eta = ts + of_int n in
                   (Inr (PInt 1),
                    self\<lparr>expiry_map := AList.update key eta (expiry_map self),
                         expiry := heappush (expiry self) (eta, key)\<rparr>))))"

definition flush_all :: "server \<Rightarrow> (exn + pyval) \<times> server" where
  "flush_all self = (Inr (PStr ''OK''), self\<lparr>kv := [], expiry := [], expiry_map := []\<rparr>)"

text \<open>
  The files that hold a snapshot, by name. \<^verbatim>\<open>pickle\<close> stores the two dicts as they are and
  gives them back as they were stored; failures of the file system are outside the model.
\<close>

record snapshot =
  snap_kv :: "(bytes \<times> Value) list"
  snap_expiry_map :: "(bytes \<times> rat) list"

type_synonym disk = "bytes \<Rightarrow> snapshot option"

definition save_to_disk :: "server \<Rightarrow> disk \<Rightarrow> bytes \<Rightarrow> (exn + pyval) \<times> server \<times> disk" where
  "save_to_disk self files filename =
     (Inr (PStr ''OK''), self,
      files(filename \<mapsto> \<lparr>snap_kv = kv self, snap_expiry_map = expiry_map self\<rparr>))"

definition restore_from_disk :: "server \<Rightarrow> disk \<Rightarrow> bytes \<Rightarrow> (exn + pyval) \<times> server \<times> disk" where
  "restore_from_disk self files filename =
     (case files filename of
        None \<Rightarrow> (Inr (PInt 0), self, files)
      | Some state \<Rightarrow>
          (Inr (PInt 1),
           self\<lparr>kv := snap_kv state,
                expiry_map := snap_expiry_map state,
                expiry := fold (\<lambda>(key, eta) h. heappush h (eta, key)) (snap_expiry_map state) []\<rparr>,
           files))"

definition info :: "server \<Rightarrow> rat \<Rightarrow> (exn + pyval) \<times> server" where
  "info self ts =
     (let self = snd (clean_expired self ts) in
      (Inr (PDict
         [(PStr ''active_connections'', PInt (active_connections (stats self))),
          (PStr ''commands_processed'', PInt (commands_processed (stats self))),
          (PStr ''command_errors'', PInt (command_errors (stats self))),
          (PStr ''connections'', PInt (connections (stats self))),
          (PStr ''keys'', PInt (int (length (kv self))))]), self))"

definition client_quit :: "server \<Rightarrow> (exn + pyval) \<times> server" where
  "client_quit self = (Inl ClientQuit, self)"

definition shutdown :: "server \<Rightarrow> (exn + pyval) \<times> server" where
  "shutdown self = (Inl Shutdown, self)"

section \<open>The dispatcher: \<open>DBLiteServer.respond\<close>\<close>

text \<open>\<^verbatim>\<open>bytes.upper()\<close>: the ASCII letters a to z become A to Z, every other byte stays.\<close>

definition upper_char :: "char \<Rightarrow> char" where
  "upper_char c = (if CHR ''a'' \<le> c \<and> c \<le> CHR ''z'' then char_of (of_char c - (32 :: nat)) else c)"

definition upper :: "bytes \<Rightarrow> bytes" where
  "upper b = map upper_char b"

text \<open>
  The table of \<open>get_commands\<close>: each name with the handler it is bound to. \<open>call\<close> applies a
  handler to the arguments of a request, \<^verbatim>\<open>self.commands[cmd](*data[1:])\<close>. A method without
  decorator raises \<^verbatim>\<open>TypeError\<close> for the wrong number of arguments before it does anything.
  A decorated method is called through the decorator's \<open>inner(self, key, *args)\<close>, which takes
  any number of arguments after the key: the sweep, the check of the key, the type test and
  the creation of a missing container come first, and only then the call of the method
  raises \<^verbatim>\<open>TypeError\<close> (\<open>arity_error\<close>); without a key \<open>inner\<close> itself cannot be called. A
  key or a file name that is not a byte string is outside the model (\<open>Unmodelled\<close>). The clock
  readings are handed on to the handler.
\<close>

definition arity_error :: "server \<Rightarrow> bytes \<Rightarrow> (exn + pyval) \<times> server" where
  "arity_error self key = (Inl TypeError, self)"

datatype handler =
    Cmd_kv_set | Cmd_kv_get | Cmd_kv_delete | Cmd_kv_exists
  | Cmd_lpush | Cmd_lpop | Cmd_hset | Cmd_hget | Cmd_sadd | Cmd_smembers
  | Cmd_expire | Cmd_flush_all | Cmd_save_to_disk | Cmd_restore_from_disk
  | Cmd_info | Cmd_client_quit | Cmd_shutdown

definition get_commands :: "(bytes \<times> handler) list" where
  "get_commands =
     [(''SET'', Cmd_kv_set), (''GET'', Cmd_kv_get), (''DELETE'', Cmd_kv_delete),
      (''EXISTS'', Cmd_kv_exists), (''LPUSH'', Cmd_lpush), (''LPOP'', Cmd_lpop),
      (''HSET'', Cmd_hset), (''HGET'', Cmd_hget), (''SADD'', Cmd_sadd),
      (''SMEMBERS'', Cmd_smembers), (''EXPIRE'', Cmd_expire), (''FLUSHALL'', Cmd_flush_all),
      (''SAVE'', Cmd_save_to_disk), (''RESTORE'', Cmd_restore_from_disk), (''INFO'', Cmd_info),
      (''QUIT'', Cmd_client_quit), (''SHUTDOWN'', Cmd_shutdown)]"

definition with_disk :: "disk \<Rightarrow> (exn + pyval) \<times> server \<Rightarrow> (exn + pyval) \<times> server \<times> disk" where
  "with_disk files r = (fst r, snd r, files)"

definition call :: "handler \<Rightarrow> server \<Rightarrow> disk \<Rightarrow> rat \<Rightarrow> rat \<Rightarrow> pyval list \<Rightarrow> (exn + pyval) \<times> server \<times> disk" where
  "call m self files ts1 ts2 args =
     (case m of
        Cmd_kv_set \<Rightarrow>
          (case args of
             [PBytes key, v] \<Rightarrow> with_disk files (kv_set self key v)
           | [_, _] \<Rightarrow> (Inl Unmodelled, self, files)
           | _ \<Rightarrow> (Inl TypeError, self, files))
      | Cmd_kv_get \<Rightarrow>
          (case args of
             [PBytes key] \<Rightarrow> with_disk files (kv_get self ts1 ts2 key)
           | [_] \<Rightarrow> (Inl Unmodelled, self, files)
           | _ \<Rightarrow> (Inl TypeError, self, files))
      | Cmd_kv_delete \<Rightarrow>
          (case args of
             [PBytes key] \<Rightarrow> with_disk files (kv_delete self ts1 key)
           | [_] \<Rightarrow> (Inl Unmodelled, self, files)
           | _ \<Rightarrow> (Inl TypeError, self, files))
      | Cmd_kv_exists \<Rightarrow>
          (case args of
             [PBytes key] \<Rightarrow> with_disk files (kv_exists self ts1 ts2 key)
           | [_] \<Rightarrow> (Inl Unmodelled, self, files)
           | _ \<Rightarrow> (Inl TypeError, self, files))
      | Cmd_lpush \<Rightarrow>
          (case args of
             PBytes key # vs \<Rightarrow> with_disk files (lpush self ts1 ts2 key vs)
           | _ # _ \<Rightarrow> (Inl Unmodelled, self, files)
           | [] \<Rightarrow> (Inl TypeError, self, files))
      | Cmd_lpop \<Rightarrow>
          (case args of
             [PBytes key] \<Rightarrow> with_disk files (lpop self ts1 ts2 key)
           | PBytes key # _ \<Rightarrow>
               with_disk files (enforce_datatype QUEUE True arity_error self ts1 ts2 key)
           | _ # _ \<Rightarrow> (Inl Unmodelled, self, files)
           | [] \<Rightarrow> (Inl TypeError, self, files))
      | Cmd_hset \<Rightarrow>
          (case args of
             [PBytes key, field, v] \<Rightarrow> with_disk files (hset self ts1 ts2 key field v)
           | PBytes key # _ \<Rightarrow>
               with_disk files (enforce_datatype HASH True arity_error self ts1 ts2 key)
           | _ # _ \<Rightarrow> (Inl Unmodelled, self, files)
           | [] \<Rightarrow> (Inl TypeError, self, files))
      | Cmd_hget \<Rightarrow>
          (case args of
             [PBytes key, field] \<Rightarrow> with_disk files (hget self ts1 ts2 key field)
           | PBytes key # _ \<Rightarrow>
               with_disk files (enforce_datatype HASH True arity_error self ts1 ts2 key)
           | _ # _ \<Rightarrow> (Inl Unmodelled, self, files)
           | [] \<Rightarrow> (Inl TypeError, self, files))
      | Cmd_sadd \<Rightarrow>
          (case args of
             PBytes key # members \<Rightarrow> with_disk files (sadd self ts1 ts2 key members)
           | _ # _ \<Rightarrow> (Inl Unmodelled, self, files)
           | [] \<Rightarrow> (Inl TypeError, self, files))
      | Cmd_smembers \<Rightarrow>
          (case args of
             [PBytes key] \<Rightarrow> with_disk files (smembers self ts1 ts2 key)
           | PBytes key # _ \<Rightarrow>
               with_disk files (enforce_datatype SET True arity_error self ts1 ts2 key)
           | _ # _ \<Rightarrow> (Inl Unmodelled, self, files)
           | [] \<Rightarrow> (Inl TypeError, self, files))
      | Cmd_expire \<Rightarrow>
          (case args of
             [PBytes key, seconds] \<Rightarrow> with_disk files (expire self ts1 key seconds)
           | [_, _] \<Rightarrow> (Inl Unmodelled, self, files)
           | _ \<Rightarrow> (Inl TypeError, self, files))
      | Cmd_flush_all \<Rightarrow>
          (case args of
             [] \<Rightarrow> with_disk files (flush_all self)
           | _ \<Rightarrow> (Inl TypeError, self, files))
      | Cmd_save_to_disk \<Rightarrow>
          (case args of
             [PBytes filename] \<Rightarrow> save_to_disk self files filename
           | [_] \<Rightarrow> (Inl Unmodelled, self, files)
           | _ \<Rightarrow> (Inl TypeError, self, files))
      | Cmd_restore_from_disk \<Rightarrow>
          (case args of
             [PBytes filename] \<Rightarrow> restore_from_disk self files filename
           | [_] \<Rightarrow> (Inl Unmodelled, self, files)
           | _ \<Rightarrow> (Inl TypeError, self, files))
      | Cmd_info \<Rightarrow>
          (case args of
             [] \<Rightarrow> with_disk files (info self ts1)
           | _ \<Rightarrow> (Inl TypeError, self, files))
      | Cmd_client_quit \<Rightarrow>
          (case args of
             [] \<Rightarrow> with_disk files (client_quit self)
           | _ \<Rightarrow> (Inl TypeError, self, files))
      | Cmd_shutdown \<Rightarrow>
          (case args of
             [] \<Rightarrow> with_disk files (shutdown self)
           | _ \<Rightarrow> (Inl TypeError, self, files)))"

text \<open>
  The text of \<^verbatim>\<open>{cmd}\<close> in the f-string of \<open>respond\<close>. Python's \<^verbatim>\<open>repr\<close> of a float is the
  parameter \<open>float_repr\<close>; an integer of too many digits raises \<^verbatim>\<open>ValueError\<close>. Lists, dicts
  and sets never get here: they are refused as unhashable before the message is built.
\<close>

definition format_value :: "(pyfloat \<Rightarrow> string) \<Rightarrow> pyval \<Rightarrow> exn + string" where
  "format_value float_repr x =
     (case x of
        PBytes b \<Rightarrow> Inr (bytes_repr b)
      | PStr s \<Rightarrow> Inr s
      | PInt n \<Rightarrow> fmt_d n
      | PFloat f \<Rightarrow> Inr (float_repr f)
      | PNone \<Rightarrow> Inr ''None''
      | PError m \<Rightarrow> Inr (msg_str m)
      | _ \<Rightarrow> Inr [])"

definition lookup_command :: "pyval \<Rightarrow> handler option" where
  "lookup_command cmd = (case cmd of PBytes name \<Rightarrow> map_of get_commands name | _ \<Rightarrow> None)"

text \<open>
  \<open>respond\<close>. The first element is uppercased when it is a byte string. A first element that
  is a \<^verbatim>\<open>str\<close> cannot come from the decoder and is outside the model.
\<close>

definition respond ::
  "(pyfloat \<Rightarrow> string) \<Rightarrow> server \<Rightarrow> disk \<Rightarrow> rat \<Rightarrow> rat \<Rightarrow> pyval list \<Rightarrow> (exn + pyval) \<times> server \<times> disk" where
  "respond float_repr self files ts1 ts2 data =
     (case data of
        [] \<Rightarrow> (Inl (Error (MStr ''Empty request'')), self, files)
      | PStr s # args \<Rightarrow> (Inl Unmodelled, self, files)
      | first # args \<Rightarrow>
          (let cmd = (case first of PBytes b \<Rightarrow> PBytes (upper b) | _ \<Rightarrow> first) in
           if \<not> hashable cmd then (Inl TypeError, self, files)
           else (case lookup_command cmd of
                   None \<Rightarrow>
                     (case format_value float_repr cmd of
                        Inl e \<Rightarrow> (Inl e, self, files)
                      | Inr shown \<Rightarrow>
                          (Inl (Error (MStr (''Unknown command: '' @ shown))), self, files))
                 | Some m \<Rightarrow> call m self files ts1 ts2 args)))"

text \<open>A float printer for concrete runs that print no float.\<close>

definition plain_repr :: "pyfloat \<Rightarrow> string" where
  "plain_repr f = ''float''"

section \<open>Snapshots\<close>

text \<open>The three commands \<^verbatim>\<open>SAVE\<close>, \<^verbatim>\<open>FLUSHALL\<close>, \<^verbatim>\<open>RESTORE\<close> in a row, on one file name.\<close>

definition save_flush_restore :: "server \<Rightarrow> disk \<Rightarrow> bytes \<Rightarrow> (exn + pyval) \<times> server \<times> disk" where
  "save_flush_restore self files filename =
     (case save_to_disk self files filename of
        (r1, s1, files1) \<Rightarrow>
          (case flush_all s1 of
             (r2, s2) \<Rightarrow> restore_from_disk s2 files1 filename))"

text \<open>A state for concrete runs: two strings, one of them a byte that is not UTF-8, and a list; two deadlines.\<close>

definition example_server :: server where
  "example_server =
     \<lparr>kv = [(''key1'', \<lparr>data_type = KV, val = PBytes ''value1''\<rparr>),
            (''key_bin'', \<lparr>data_type = KV, val = PBytes [CHR 0x80]\<rparr>),
            (''mylist'', \<lparr>data_type = QUEUE, val = PList [PBytes ''b'', PBytes ''a'']\<rparr>)],
      expiry = [(3, ''key_bin''), (7, ''key1'')],
      expiry_map = [(''key_bin'', 3), (''key1'', 7)],
      stats = \<lparr>active_connections = 1, commands_processed = 5, command_errors = 0, connections = 1\<rparr>\<rparr>"

definition example_disk :: disk where
  "example_disk = [''old.dump'' \<mapsto> \<lparr>snap_kv = [], snap_expiry_map = []\<rparr>]"

lemma heap_of_items:
  "set (fold (\<lambda>(key, eta) h. heappush h (eta, key)) items h0) =
     set h0 \<union> (\<lambda>(key, eta). (eta, key)) ` set items \<and>
   length (fold (\<lambda>(key, eta) h. heappush h (eta, key)) items h0) = length h0 + length items"
  by (induction items arbitrary: h0) (auto simp: heappush_def)

text \<open>
  Claim C6. For every engine state and file name, \<^verbatim>\<open>SAVE\<close>, then \<^verbatim>\<open>FLUSHALL\<close>, then \<^verbatim>\<open>RESTORE\<close>
  returns 1 and leaves the key-space and the expiry map exactly as they were before (every
  byte string as it was, every deadline, elapsed or not), with a heap that holds one entry
  \<open>(deadline, key)\<close> for each item of the restored expiry map and nothing else; the counters
  are untouched. \<^verbatim>\<open>RESTORE\<close> of a file that does not exist returns 0 and changes nothing.
\<close>

theorem snapshot_round_trip:
  "(case save_flush_restore self files filename of
      (r, s, files') \<Rightarrow>
        r = Inr (PInt 1) \<and> kv s = kv self \<and> expiry_map s = expiry_map self \<and>
        set (expiry s) = (\<lambda>(key, eta). (eta, key)) ` set (expiry_map self) \<and>
        length (expiry s) = length (expiry_map self) \<and> stats s = stats self) \<and>
   (files filename = None \<longrightarrow>
      restore_from_disk self files filename = (Inr (PInt 0), self, files))"
  using heap_of_items[of "expiry_map self" "[]"]
  by (simp add: save_flush_restore_def save_to_disk_def flush_all_def restore_from_disk_def)

theorem snapshot_round_trip_witness:
  "example_disk ''test.dump'' = None \<and>
   restore_from_disk example_server example_disk ''test.dump'' =
     (Inr (PInt 0), example_server, example_disk) \<and>
   kv (fst (snd (save_flush_restore example_server example_disk ''test.dump''))) =
     kv example_server \<and>
   map_of (kv (fst (snd (save_flush_restore example_server example_disk ''test.dump''))))
       ''key_bin'' = Some \<lparr>data_type = KV, val = PBytes [CHR 0x80]\<rparr> \<and>
   set (expiry (fst (snd (save_flush_restore example_server example_disk ''test.dump'')))) =
     {(3, ''key_bin''), (7, ''key1'')}"
proof -
  have missing: "example_disk ''test.dump'' = None"
    by (simp add: example_disk_def)
  show ?thesis
    using missing snapshot_round_trip[of example_server example_disk "''test.dump''"]
    by (auto simp: example_server_def split: prod.splits)
qed

section \<open>What the sweep does to one key\<close>


lemma clean_loop_key:
  "(map_of (expiry_map (snd (clean_loop s ts n))) k = map_of (expiry_map s) k \<and>
    map_of (kv (snd (clean_loop s ts n))) k = map_of (kv s) k) \<or>
   (map_of (expiry_map s) k \<noteq> None \<and>
    map_of (expiry_map (snd (clean_loop s ts n))) k = None \<and>
    map_of (kv (snd (clean_loop s ts n))) k = None)"
proof (induction s ts n rule: clean_loop.induct)
  case (1 self ts n)
  show ?case
  proof (cases "expiry self = []")
    case True
    then show ?thesis by (simp add: clean_loop.simps[of self ts n])
  next
    case False
    obtain eta key where root: "heap_root (expiry self) = (eta, key)"
      by (cases "heap_root (expiry self)")
    show ?thesis
    proof (cases "eta > ts")
      case True
      with False root show ?thesis by (simp add: clean_loop.simps[of self ts n])
    next
      case late: False
      define self1 where "self1 = self\<lparr>expiry := heappop (expiry self)\<rparr>"
      show ?thesis
      proof (cases "map_of (expiry_map self1) key = Some eta")
        case True
        define self2 where
          "self2 = self1\<lparr>expiry_map := AList.delete key (expiry_map self1),
                         kv := AList.delete key (kv self1)\<rparr>"
        have step: "clean_loop self ts n = clean_loop self2 ts (n + 1)"
          using False root late True
          by (simp add: clean_loop.simps[of self ts n] self1_def self2_def Let_def)
        have ih: "(map_of (expiry_map (snd (clean_loop self2 ts (n + 1)))) k = map_of (expiry_map self2) k \<and>
            map_of (kv (snd (clean_loop self2 ts (n + 1)))) k = map_of (kv self2) k) \<or>
           (map_of (expiry_map self2) k \<noteq> None \<and>
            map_of (expiry_map (snd (clean_loop self2 ts (n + 1)))) k = None \<and>
            map_of (kv (snd (clean_loop self2 ts (n + 1)))) k = None)"
          using "1.IH"(1)[OF False root[symmetric] late self1_def True]
          by (simp add: self2_def)
        show ?thesis
        proof (cases "k = key")
          case True
          with ih \<open>map_of (expiry_map self1) key = Some eta\<close> show ?thesis
            unfolding step by (auto simp: self2_def self1_def delete_conv')
        next
          case False
          with ih show ?thesis
            unfolding step by (auto simp: self2_def self1_def delete_conv')
        qed
      next
        case stale: False
        have step: "clean_loop self ts n = clean_loop self1 ts n"
          using False root late stale
          by (simp add: clean_loop.simps[of self ts n] self1_def Let_def)
        from "1.IH"(2)[OF False root[symmetric] late self1_def stale]
        show ?thesis unfolding step by (simp add: self1_def)
      qed
    qed
  qed
qed

lemma clean_loop_stats: "stats (snd (clean_loop s ts n)) = stats s"
proof (induction s ts n rule: clean_loop.induct)
  case (1 self ts n)
  show ?case
  proof (cases "expiry self = []")
    case True
    then show ?thesis by (simp add: clean_loop.simps[of self ts n])
  next
    case False
    obtain eta key where root: "heap_root (expiry self) = (eta, key)"
      by (cases "heap_root (expiry self)")
    show ?thesis
    proof (cases "eta > ts")
      case True
      with False root show ?thesis by (simp add: clean_loop.simps[of self ts n])
    next
      case late: False
      define self1 where "self1 = self\<lparr>expiry := heappop (expiry self)\<rparr>"
      show ?thesis
      proof (cases "map_of (expiry_map self1) key = Some eta")
        case True
        then show ?thesis
          using False root late "1.IH"(1)[OF False root[symmetric] late self1_def True]
          by (simp add: clean_loop.simps[of self ts n] self1_def Let_def)
      next
        case stale: False
        then show ?thesis
          using False root late "1.IH"(2)[OF False root[symmetric] late self1_def stale]
          by (simp add: clean_loop.simps[of self ts n] self1_def Let_def)
      qed
    qed
  qed
qed

lemma swept_key:
  "(map_of (expiry_map (swept s ts1 ts2 key)) k = map_of (expiry_map s) k \<or>
      (map_of (expiry_map s) k \<noteq> None \<and> map_of (expiry_map (swept s ts1 ts2 key)) k = None)) \<and>
   (map_of (kv (swept s ts1 ts2 key)) k = map_of (kv s) k \<or>
      (map_of (expiry_map s) k \<noteq> None \<and> map_of (kv (swept s ts1 ts2 key)) k = None))"
  using clean_loop_key[of s ts1 0 k]
  by (auto simp: swept_def drop_if_expired_def clean_expired_def check_expired_def delete_conv'
           split: option.splits)

lemma swept_drops_expired:
  assumes "map_of (expiry_map s) key = Some d" and "d < ts2"
  shows "map_of (kv (swept s ts1 ts2 key)) key = None"
  using clean_loop_key[of s ts1 0 key] assms
  by (auto simp: swept_def drop_if_expired_def clean_expired_def check_expired_def delete_conv'
           split: option.splits)


lemma enforce_wrongtype:
  "map_of (kv (swept self ts1 ts2 key)) key = Some v \<Longrightarrow> data_type v \<noteq> dt \<Longrightarrow>
   enforce_datatype dt sm meth self ts1 ts2 key = (Inl WRONGTYPE, swept self ts1 ts2 key)"
  by (simp add: enforce_datatype_def Let_def)

lemma enforce_present:
  "map_of (kv (swept self ts1 ts2 key)) key = Some v \<Longrightarrow> data_type v = dt \<Longrightarrow>
   enforce_datatype dt sm meth self ts1 ts2 key = meth (swept self ts1 ts2 key) key"
  by (simp add: enforce_datatype_def Let_def)

text \<open>The decorator's branch for a missing key: \<^verbatim>\<open>self.kv[key] = Value(data_type, val)\<close>.\<close>

definition created :: "server \<Rightarrow> bytes \<Rightarrow> nat \<Rightarrow> server" where
  "created s key dt = s\<lparr>kv := AList.update key \<lparr>data_type = dt, val = empty_val dt\<rparr> (kv s)\<rparr>"

lemma enforce_missing:
  "map_of (kv (swept self ts1 ts2 key)) key = None \<Longrightarrow>
   enforce_datatype dt True meth self ts1 ts2 key = meth (created (swept self ts1 ts2 key) key dt) key"
  by (simp add: enforce_datatype_def Let_def created_def)

lemma created_lookup:
  "map_of (kv (created s key dt)) k =
     (if k = key then Some \<lparr>data_type = dt, val = empty_val dt\<rparr> else map_of (kv s) k)"
  by (simp add: created_def update_conv')



section \<open>Lists\<close>

text \<open>
  \<open>queue_at s key q\<close>: in state \<open>s\<close> the key holds the list \<open>q\<close>, or the key is missing and
  \<open>q\<close> is empty. \<open>put_queue\<close> stores a list under the key.
\<close>

definition queue_at :: "server \<Rightarrow> bytes \<Rightarrow> pyval list \<Rightarrow> bool" where
  "queue_at s key q =
     (case map_of (kv s) key of
        None \<Rightarrow> q = []
      | Some v \<Rightarrow> v = \<lparr>data_type = QUEUE, val = PList q\<rparr>)"

definition put_queue :: "server \<Rightarrow> bytes \<Rightarrow> pyval list \<Rightarrow> server" where
  "put_queue s key q = s\<lparr>kv := AList.update key \<lparr>data_type = QUEUE, val = PList q\<rparr> (kv s)\<rparr>"

lemma put_queue_created: "put_queue (created s key dt) key q = put_queue s key q"
  by (simp add: put_queue_def created_def)

lemma put_queue_same:
  "map_of (kv s) key = Some \<lparr>data_type = QUEUE, val = PList q\<rparr> \<Longrightarrow> put_queue s key q = s"
  by (simp add: put_queue_def update_triv)

lemma lpush_meth_at:
  "map_of (kv s) key = Some \<lparr>data_type = QUEUE, val = PList q\<rparr> \<Longrightarrow>
   lpush_meth values s key =
     (Inr (PInt (int (length values + length q))), put_queue s key (rev values @ q))"
  by (simp add: lpush_meth_def put_queue_def)

lemma lpop_meth_at:
  "map_of (kv s) key = Some \<lparr>data_type = QUEUE, val = PList q\<rparr> \<Longrightarrow>
   lpop_meth s key =
     (case q of [] \<Rightarrow> (Inr PNone, put_queue s key []) | x # q' \<Rightarrow> (Inr x, put_queue s key q'))"
  using put_queue_same[of s key q]
  by (cases q) (simp_all add: lpop_meth_def put_queue_def)

text \<open>
  Claim C8. Take the state after the command's sweep and per-key check, and let the key hold
  a list \<open>q\<close> there or be missing (\<open>q\<close> empty). \<^verbatim>\<open>LPUSH\<close> of \<open>v1 .. vn\<close> stores the list
  \<open>vn .. v1\<close> followed by \<open>q\<close>, so that the last argument is at the front, and returns the new
  length, creating the list when the key was missing. \<^verbatim>\<open>LPOP\<close> removes and returns the front
  element; on an empty or newly created list it returns null; in every case the list, empty
  or not, is stored under the key afterwards.
\<close>

theorem lpush_lpop_front:
  assumes "queue_at (swept self ts1 ts2 key) key q"
  shows "lpush self ts1 ts2 key values =
           (Inr (PInt (int (length values + length q))),
            put_queue (swept self ts1 ts2 key) key (rev values @ q)) \<and>
         (values \<noteq> [] \<longrightarrow> hd (rev values @ q) = last values) \<and>
         lpop self ts1 ts2 key =
           (case q of
              [] \<Rightarrow> (Inr PNone, put_queue (swept self ts1 ts2 key) key [])
            | x # q' \<Rightarrow> (Inr x, put_queue (swept self ts1 ts2 key) key q'))"
proof -
  define s where "s = swept self ts1 ts2 key"
  have front: "values \<noteq> [] \<longrightarrow> hd (rev values @ q) = last values"
    by (simp add: hd_rev)
  show ?thesis
  proof (cases "map_of (kv s) key")
    case None
    with assms have q: "q = []" by (simp add: queue_at_def s_def)
    have at: "map_of (kv (created s key QUEUE)) key = Some \<lparr>data_type = QUEUE, val = PList []\<rparr>"
      by (simp add: created_lookup empty_val_def)
    from None have "lpush self ts1 ts2 key values = lpush_meth values (created s key QUEUE) key"
      and "lpop self ts1 ts2 key = lpop_meth (created s key QUEUE) key"
      unfolding lpush_def lpop_def s_def by (simp_all add: enforce_missing)
    with lpush_meth_at[OF at, of "values"] lpop_meth_at[OF at] front show ?thesis
      by (simp add: q put_queue_created s_def)
  next
    case (Some v)
    with assms have v: "v = \<lparr>data_type = QUEUE, val = PList q\<rparr>" by (simp add: queue_at_def s_def)
    from Some v have at: "map_of (kv s) key = Some \<lparr>data_type = QUEUE, val = PList q\<rparr>" by simp
    from Some v have "lpush self ts1 ts2 key values = lpush_meth values s key"
      and "lpop self ts1 ts2 key = lpop_meth s key"
      unfolding lpush_def lpop_def s_def by (simp_all add: enforce_present[of self ts1 ts2 key v])
    with lpush_meth_at[OF at, of "values"] lpop_meth_at[OF at] front show ?thesis
      by (cases q) (simp_all add: s_def)
  qed
qed

theorem lpush_lpop_front_witness:
  "queue_at (swept example_server 1 1 ''mylist'') ''mylist'' [PBytes ''b'', PBytes ''a''] \<and>
   fst (lpush example_server 1 1 ''mylist'' [PBytes ''c'', PBytes ''d'']) = Inr (PInt 4) \<and>
   map_of (kv (snd (lpush example_server 1 1 ''mylist'' [PBytes ''c'', PBytes ''d'']))) ''mylist'' =
     Some \<lparr>data_type = QUEUE, val = PList [PBytes ''d'', PBytes ''c'', PBytes ''b'', PBytes ''a'']\<rparr> \<and>
   fst (lpop example_server 1 1 ''mylist'') = Inr (PBytes ''b'')"
proof -
  have idle: "swept example_server 1 1 ''mylist'' = example_server"
    by (simp add: swept_def clean_expired_def clean_loop.simps heap_root_def drop_if_expired_def
          check_expired_def example_server_def)
  have q: "queue_at (swept example_server 1 1 ''mylist'') ''mylist'' [PBytes ''b'', PBytes ''a'']"
    unfolding idle by (simp add: queue_at_def example_server_def)
  show ?thesis
    using q lpush_lpop_front[OF q, of "[PBytes ''c'', PBytes ''d'']"]
    by (simp add: put_queue_def update_conv')
qed

section \<open>Reads, expiry and the decorator\<close>

text \<open>\<open>GET\<close> and \<open>EXISTS\<close> in terms of the state that the sweep and the per-key check leave.\<close>

lemma kv_get_swept:
  "kv_get self ts1 ts2 key =
     (Inr (case map_of (kv (swept self ts1 ts2 key)) key of None \<Rightarrow> PNone | Some v \<Rightarrow> val v),
      swept self ts1 ts2 key)"
  by (simp add: kv_get_def swept_def drop_if_expired_def Let_def delete_conv' split: option.splits)

lemma kv_exists_swept:
  "kv_exists self ts1 ts2 key =
     (Inr (PInt (if map_of (kv (swept self ts1 ts2 key)) key \<noteq> None then 1 else 0)),
      swept self ts1 ts2 key)"
  by (simp add: kv_exists_def swept_def drop_if_expired_def Let_def delete_conv')

lemma swept_idle:
  assumes "expiry self = [] \<or> ts1 < fst (heap_root (expiry self))"
    and "\<not> check_expired self key ts2"
  shows "swept self ts1 ts2 key = self"
  using assms
  by (auto simp: swept_def clean_expired_def clean_loop.simps[of self ts1 0] drop_if_expired_def
           split: prod.splits)

lemma hget_meth_empty:
  "map_of (kv s) key = Some \<lparr>data_type = HASH, val = PDict []\<rparr> \<Longrightarrow> hashable field \<Longrightarrow>
   hget_meth field s key = (Inr PNone, s)"
  by (simp add: hget_meth_def)

lemma smembers_meth_empty:
  "map_of (kv s) key = Some \<lparr>data_type = SET, val = PSet []\<rparr> \<Longrightarrow>
   smembers_meth s key = (Inr (PList []), s)"
  by (simp add: smembers_meth_def)

lemma lpop_meth_empty:
  "map_of (kv s) key = Some \<lparr>data_type = QUEUE, val = PList []\<rparr> \<Longrightarrow>
   lpop_meth s key = (Inr PNone, s)"
  by (simp add: lpop_meth_def)

lemma typed_reads_on_missing:
  assumes "map_of (kv (swept self ts1 ts2 key)) key = None"
  shows "hashable field \<Longrightarrow>
           hget self ts1 ts2 key field = (Inr PNone, created (swept self ts1 ts2 key) key HASH)"
    and "smembers self ts1 ts2 key = (Inr (PList []), created (swept self ts1 ts2 key) key SET)"
    and "lpop self ts1 ts2 key = (Inr PNone, created (swept self ts1 ts2 key) key QUEUE)"
  using assms
  by (simp_all add: hget_def smembers_def lpop_def enforce_missing hget_meth_empty
        smembers_meth_empty lpop_meth_empty created_lookup empty_val_def)

text \<open>The \<open>keys\<close> field of the result of \<open>INFO\<close>.\<close>

definition info_keys :: "(exn + pyval) \<Rightarrow> pyval" where
  "info_keys r = (case r of Inr (PDict d) \<Rightarrow> dict_get (PStr ''keys'') d | _ \<Rightarrow> PNone)"




text \<open>
  The claim as stated fails for a key that only the check of the key drops. The sweep of
  \<^verbatim>\<open>HGET\<close> reads the clock at 2, before the deadline 3 of \<open>key_bin\<close>, and the check reads it
  at 5: the entry is dropped, but the deadline stays in the expiry map and in the heap.
  \<^verbatim>\<open>HGET\<close> returns null and stores the empty hash; the sweep of the next command removes
  it with the deadline, so that \<^verbatim>\<open>EXISTS\<close> returns 0 and \<^verbatim>\<open>INFO\<close> counts the two other
  keys only.
\<close>

theorem reads_create_containers_counterexample:
  "fst (hget example_server 2 5 ''key_bin'' (PBytes ''f'')) = Inr PNone \<and>
   map_of (kv (snd (hget example_server 2 5 ''key_bin'' (PBytes ''f'')))) ''key_bin'' =
     Some \<lparr>data_type = HASH, val = PDict []\<rparr> \<and>
   map_of (expiry_map (snd (hget example_server 2 5 ''key_bin'' (PBytes ''f'')))) ''key_bin'' =
     Some 3 \<and>
   fst (kv_exists (snd (hget example_server 2 5 ''key_bin'' (PBytes ''f''))) 6 6 ''key_bin'') =
     Inr (PInt 0) \<and>
   info_keys (fst (info (snd (hget example_server 2 5 ''key_bin'' (PBytes ''f''))) 6)) = PInt 2"
  by (simp add: hget_def enforce_datatype_def swept_def clean_expired_def clean_loop.simps
        heap_root_def heappop_def drop_if_expired_def check_expired_def example_server_def
        hget_meth_def empty_val_def kv_exists_def info_def info_keys_def Let_def)

section \<open>Type enforcement\<close>

text \<open>
  Claim C2, as the code has it. Let the key hold an entry of tag \<open>T'\<close> after the command's
  sweep and per-key check. Then each typed command whose tag differs from \<open>T'\<close> (\<^verbatim>\<open>LPUSH\<close>,
  \<^verbatim>\<open>LPOP\<close>, \<^verbatim>\<open>HSET\<close>, \<^verbatim>\<open>HGET\<close>, \<^verbatim>\<open>SADD\<close>, \<^verbatim>\<open>SMEMBERS\<close>) fails with \<open>WRONGTYPE\<close> and leaves
  exactly the state that the sweep produced: the command itself adds, removes and changes
  no entry. When nothing is due (the heap is empty or its least deadline is later than the
  clock, and the key's own deadline has not passed) that state is the state before the
  command.
\<close>

theorem wrongtype_after_sweep:
  assumes "map_of (kv (swept self ts1 ts2 key)) key = Some v"
  shows "(data_type v \<noteq> QUEUE \<longrightarrow>
            lpush self ts1 ts2 key values = (Inl WRONGTYPE, swept self ts1 ts2 key) \<and>
            lpop self ts1 ts2 key = (Inl WRONGTYPE, swept self ts1 ts2 key)) \<and>
         (data_type v \<noteq> HASH \<longrightarrow>
            hset self ts1 ts2 key field x = (Inl WRONGTYPE, swept self ts1 ts2 key) \<and>
            hget self ts1 ts2 key field = (Inl WRONGTYPE, swept self ts1 ts2 key)) \<and>
         (data_type v \<noteq> SET \<longrightarrow>
            sadd self ts1 ts2 key members = (Inl WRONGTYPE, swept self ts1 ts2 key) \<and>
            smembers self ts1 ts2 key = (Inl WRONGTYPE, swept self ts1 ts2 key)) \<and>
         ((expiry self = [] \<or> ts1 < fst (heap_root (expiry self))) \<and> \<not> check_expired self key ts2 \<longrightarrow>
            swept self ts1 ts2 key = self)"
  using enforce_wrongtype[OF assms] swept_idle[of self ts1 key ts2]
  by (simp add: lpush_def lpop_def hset_def hget_def sadd_def smembers_def)

theorem wrongtype_after_sweep_witness:
  "map_of (kv (swept example_server 1 1 ''key1'')) ''key1'' =
     Some \<lparr>data_type = KV, val = PBytes ''value1''\<rparr> \<and>
   1 < fst (heap_root (expiry example_server)) \<and>
   \<not> check_expired example_server ''key1'' 1 \<and>
   lpush example_server 1 1 ''key1'' [PBytes ''a''] = (Inl WRONGTYPE, example_server) \<and>
   hget example_server 1 1 ''key1'' (PBytes ''f'') = (Inl WRONGTYPE, example_server) \<and>
   smembers example_server 1 1 ''key1'' = (Inl WRONGTYPE, example_server)"
proof -
  have held: "map_of (kv (swept example_server 1 1 ''key1'')) ''key1'' =
      Some \<lparr>data_type = KV, val = PBytes ''value1''\<rparr>"
    by (simp add: swept_def clean_expired_def clean_loop.simps heap_root_def heappop_def
          drop_if_expired_def check_expired_def example_server_def)
  have root: "1 < fst (heap_root (expiry example_server))"
    by (simp add: heap_root_def example_server_def)
  have live: "\<not> check_expired example_server ''key1'' 1"
    by (simp add: check_expired_def example_server_def)
  show ?thesis
    using held root live
      wrongtype_after_sweep[OF held, of "[PBytes ''a'']" "PBytes ''f''" PNone "[]"]
    by simp
qed

text \<open>
  The claim as stated fails where a deadline is due. At time 5 the key \<open>key_bin\<close> (deadline 3)
  is still stored: \<^verbatim>\<open>LPUSH key1\<close> fails with \<open>WRONGTYPE\<close> and yet \<open>key_bin\<close> is gone from the
  key-space afterwards; and \<^verbatim>\<open>LPUSH key_bin\<close>, on a key that is stored with the string tag,
  does not fail: it finds the key swept and creates a list.
\<close>

theorem wrongtype_counterexample:
  "map_of (kv example_server) ''key1'' = Some \<lparr>data_type = KV, val = PBytes ''value1''\<rparr> \<and>
   fst (lpush example_server 5 5 ''key1'' [PBytes ''a'']) = Inl WRONGTYPE \<and>
   map_of (kv example_server) ''key_bin'' = Some \<lparr>data_type = KV, val = PBytes [CHR 0x80]\<rparr> \<and>
   map_of (kv (snd (lpush example_server 5 5 ''key1'' [PBytes ''a'']))) ''key_bin'' = None \<and>
   fst (lpush example_server 5 5 ''key_bin'' [PBytes ''a'']) = Inr (PInt 1)"
  by (simp add: lpush_def enforce_datatype_def swept_def clean_expired_def clean_loop.simps
        heap_root_def heappop_def drop_if_expired_def check_expired_def example_server_def
        lpush_meth_def empty_val_def Let_def)

section \<open>Expiry\<close>

text \<open>
  Claim C3, as the code has it. Let the key have the deadline \<open>d\<close> and let the clock, when
  the command checks the key, be past \<open>d\<close>. Then the entry that was stored under the key is
  gone after the sweep and the check; \<^verbatim>\<open>GET\<close> returns null and \<^verbatim>\<open>EXISTS\<close> returns 0, and
  the key is absent afterwards. \<^verbatim>\<open>HGET\<close> and \<^verbatim>\<open>LPOP\<close> return null and \<^verbatim>\<open>SMEMBERS\<close> returns
  the empty list, but they store the key again, with an empty container of their type.
\<close>

theorem elapsed_deadline_reads:
  assumes "map_of (expiry_map self) key = Some d" and "d < ts2"
  shows "map_of (kv (swept self ts1 ts2 key)) key = None \<and>
         kv_get self ts1 ts2 key = (Inr PNone, swept self ts1 ts2 key) \<and>
         kv_exists self ts1 ts2 key = (Inr (PInt 0), swept self ts1 ts2 key) \<and>
         (hashable field \<longrightarrow>
            hget self ts1 ts2 key field = (Inr PNone, created (swept self ts1 ts2 key) key HASH)) \<and>
         smembers self ts1 ts2 key = (Inr (PList []), created (swept self ts1 ts2 key) key SET) \<and>
         lpop self ts1 ts2 key = (Inr PNone, created (swept self ts1 ts2 key) key QUEUE) \<and>
         map_of (kv (created (swept self ts1 ts2 key) key dt)) key =
           Some \<lparr>data_type = dt, val = empty_val dt\<rparr>"
  using swept_drops_expired[OF assms, of ts1]
    typed_reads_on_missing[OF swept_drops_expired[OF assms, of ts1]]
  by (simp add: kv_get_swept kv_exists_swept created_lookup)

theorem elapsed_deadline_reads_witness:
  "map_of (expiry_map example_server) ''key_bin'' = Some 3 \<and> (3 :: rat) < 5 \<and>
   hashable (PBytes ''f'') \<and>
   fst (kv_get example_server 4 5 ''key_bin'') = Inr PNone \<and>
   map_of (kv (snd (kv_get example_server 4 5 ''key_bin''))) ''key_bin'' = None \<and>
   fst (kv_exists example_server 4 5 ''key_bin'') = Inr (PInt 0) \<and>
   fst (hget example_server 4 5 ''key_bin'' (PBytes ''f'')) = Inr PNone \<and>
   map_of (kv (snd (hget example_server 4 5 ''key_bin'' (PBytes ''f'')))) ''key_bin'' =
     Some \<lparr>data_type = HASH, val = PDict []\<rparr>"
proof -
  have dl: "map_of (expiry_map example_server) ''key_bin'' = Some 3"
    by (simp add: example_server_def)
  have past: "(3 :: rat) < 5" by simp
  have h: "hashable (PBytes ''f'')" by simp
  show ?thesis
    using dl past h elapsed_deadline_reads[OF dl past, of 4 "PBytes ''f''" HASH]
    by (simp add: empty_val_def)
qed

text \<open>
  The claim as stated fails in two places. At the boundary, with the clock equal to the
  deadline 3, \<open>check_expired\<close> answers no, and a \<^verbatim>\<open>GET\<close> whose sweep read the clock just
  before 3 and whose check reads 3 returns the value. And past the deadline, \<^verbatim>\<open>HGET\<close> and
  \<^verbatim>\<open>SMEMBERS\<close> leave the key in the key-space, as an empty container.
\<close>

theorem expiry_reads_counterexample:
  "map_of (expiry_map example_server) ''key_bin'' = Some 3 \<and>
   check_expired example_server ''key_bin'' 3 = False \<and>
   kv_get example_server (5 / 2) 3 ''key_bin'' = (Inr (PBytes [CHR 0x80]), example_server) \<and>
   fst (hget example_server 5 5 ''key_bin'' (PBytes ''f'')) = Inr PNone \<and>
   map_of (kv (snd (hget example_server 5 5 ''key_bin'' (PBytes ''f'')))) ''key_bin'' =
     Some \<lparr>data_type = HASH, val = PDict []\<rparr> \<and>
   fst (smembers example_server 5 5 ''key_bin'') = Inr (PList [])"
  by (simp add: kv_get_def hget_def smembers_def enforce_datatype_def swept_def clean_expired_def
        clean_loop.simps heap_root_def heappop_def drop_if_expired_def check_expired_def
        example_server_def hget_meth_def smembers_meth_def empty_val_def Let_def)

text \<open>
  Claim C4 at a concrete state. The key \<open>key_bin\<close> has the deadline 3 and the clock reads 5:
  \<^verbatim>\<open>EXISTS\<close>, which sweeps first, answers 0. \<open>expire\<close> makes no sweep: it finds the key still
  stored, returns 1 and gives it the new deadline 15, so that the key exists again at
  time 6.
\<close>

theorem expire_skips_sweep:
  "map_of (expiry_map example_server) ''key_bin'' = Some 3 \<and>
   fst (kv_exists example_server 5 5 ''key_bin'') = Inr (PInt 0) \<and>
   fst (expire example_server 5 ''key_bin'' (PInt 10)) = Inr (PInt 1) \<and>
   kv (snd (expire example_server 5 ''key_bin'' (PInt 10))) = kv example_server \<and>
   map_of (expiry_map (snd (expire example_server 5 ''key_bin'' (PInt 10)))) ''key_bin'' = Some 15 \<and>
   fst (kv_exists (snd (expire example_server 5 ''key_bin'' (PInt 10))) 6 6 ''key_bin'') = Inr (PInt 1)"
  by (simp add: expire_def kv_exists_def int_of_pyval_def float_limit_def heappush_def
        clean_expired_def clean_loop.simps heap_root_def heappop_def check_expired_def
        example_server_def Let_def)

section \<open>Tags\<close>

text \<open>
  \<open>only_removes s s'\<close>: every key holds in \<open>s'\<close> the entry it held in \<open>s\<close>, or no entry; no
  entry is added and none is changed. \<open>tags_kept s s'\<close>: every key that holds an entry in
  \<open>s\<close> still holds one in \<open>s'\<close>, with the same tag.
\<close>

definition only_removes :: "server \<Rightarrow> server \<Rightarrow> bool" where
  "only_removes s s' = (\<forall>k. map_of (kv s') k = map_of (kv s) k \<or> map_of (kv s') k = None)"

definition tags_kept :: "server \<Rightarrow> server \<Rightarrow> bool" where
  "tags_kept s s' =
     (\<forall>k v. map_of (kv s) k = Some v \<longrightarrow>
        (\<exists>v'. map_of (kv s') k = Some v' \<and> data_type v' = data_type v))"

lemma only_removes_swept: "only_removes self (swept self ts1 ts2 key)"
proof (unfold only_removes_def, intro allI)
  fix k
  show "map_of (kv (swept self ts1 ts2 key)) k = map_of (kv self) k \<or>
        map_of (kv (swept self ts1 ts2 key)) k = None"
    using swept_key[of self ts1 ts2 key k] by auto
qed

lemma only_removes_sweep: "only_removes self (snd (clean_expired self ts))"
proof (unfold only_removes_def clean_expired_def, intro allI)
  fix k
  show "map_of (kv (snd (clean_loop self ts 0))) k = map_of (kv self) k \<or>
        map_of (kv (snd (clean_loop self ts 0))) k = None"
    using clean_loop_key[of self ts 0 k] by auto
qed

lemma only_removes_delete:
  "only_removes s s' \<Longrightarrow> only_removes s (s'\<lparr>kv := AList.delete key (kv s')\<rparr>)"
  by (auto simp: only_removes_def delete_conv')

lemma tags_kept_refl: "tags_kept s s"
  by (auto simp: tags_kept_def)

lemma tags_kept_trans: "tags_kept s s' \<Longrightarrow> tags_kept s' s'' \<Longrightarrow> tags_kept s s''"
  unfolding tags_kept_def by fastforce

lemma tags_kept_created: "map_of (kv s) key = None \<Longrightarrow> tags_kept s (created s key dt)"
  by (auto simp: tags_kept_def created_lookup)

lemma enforce_keeps_tags:
  assumes "\<And>s. map_of (kv s) key \<noteq> None \<Longrightarrow> tags_kept s (snd (meth s key))"
  shows "tags_kept (swept self ts1 ts2 key) (snd (enforce_datatype dt True meth self ts1 ts2 key))"
proof (cases "map_of (kv (swept self ts1 ts2 key)) key")
  case None
  have "tags_kept (created (swept self ts1 ts2 key) key dt)
          (snd (meth (created (swept self ts1 ts2 key) key dt) key))"
    by (rule assms) (simp add: created_lookup)
  with tags_kept_created[OF None, of dt] show ?thesis
    unfolding enforce_missing[OF None] by (rule tags_kept_trans)
next
  case (Some v)
  then show ?thesis
    using assms[of "swept self ts1 ts2 key"]
    by (cases "data_type v = dt") (simp_all add: enforce_present enforce_wrongtype tags_kept_refl)
qed

lemma update_val_keeps_tags:
  "map_of (kv s) key = Some v \<Longrightarrow>
   tags_kept s (s\<lparr>kv := AList.update key (v\<lparr>val := x\<rparr>) (kv s)\<rparr>)"
  by (auto simp: tags_kept_def update_conv')

lemma meths_keep_tags:
  "tags_kept s (snd (lpush_meth vs s key))"
  "tags_kept s (snd (lpop_meth s key))"
  "tags_kept s (snd (hset_meth field x s key))"
  "tags_kept s (snd (hget_meth field s key))"
  "tags_kept s (snd (sadd_meth members s key))"
  "tags_kept s (snd (smembers_meth s key))"
  "tags_kept s (snd (arity_error s key))"
  by (auto simp: lpush_meth_def lpop_meth_def hset_meth_def hget_meth_def sadd_meth_def
        smembers_meth_def arity_error_def Let_def tags_kept_refl update_val_keeps_tags
        split: option.splits pyval.splits list.splits prod.splits)

lemma untyped_only_remove:
  "only_removes self (snd (kv_get self ts1 ts2 key))"
  "only_removes self (snd (kv_exists self ts1 ts2 key))"
  "only_removes self (snd (kv_delete self ts1 key))"
  "only_removes self (snd (info self ts1))"
proof -
  show "only_removes self (snd (kv_get self ts1 ts2 key))"
    by (simp add: kv_get_swept only_removes_swept)
  show "only_removes self (snd (kv_exists self ts1 ts2 key))"
    by (simp add: kv_exists_swept only_removes_swept)
  show "only_removes self (snd (kv_delete self ts1 key))"
    using only_removes_sweep[of self ts1] only_removes_delete[OF only_removes_sweep[of self ts1], of key]
    by (simp add: kv_delete_def Let_def unexpire_def only_removes_def)
  show "only_removes self (snd (info self ts1))"
    by (simp add: info_def Let_def only_removes_sweep)
qed

text \<open>
  Claim C5, as the code has it. The sweep and the check of the key remove entries and do
  nothing else to the key-space. Past them, every typed command, also one called with the
  wrong number of arguments, leaves every entry in place with its tag: where the tag of the
  key's entry differs from the command's, each of the six fails with \<open>WRONGTYPE\<close>. \<^verbatim>\<open>GET\<close>,
  \<^verbatim>\<open>EXISTS\<close>, \<^verbatim>\<open>DELETE\<close> and \<^verbatim>\<open>INFO\<close> only remove entries; \<^verbatim>\<open>EXPIRE\<close>, \<^verbatim>\<open>SAVE\<close>, \<^verbatim>\<open>QUIT\<close> and
  \<^verbatim>\<open>SHUTDOWN\<close> leave the key-space as it is, and \<^verbatim>\<open>FLUSHALL\<close> empties it. Two commands put
  an entry of another tag under a key that holds one: \<^verbatim>\<open>SET\<close> never fails and stores a
  string entry whatever the key held before, and \<^verbatim>\<open>RESTORE\<close> of a file that exists replaces
  the whole key-space by the one of the file.
\<close>

theorem typed_commands_keep_tags:
  "only_removes self (swept self ts1 ts2 key) \<and>
   tags_kept (swept self ts1 ts2 key) (snd (lpush self ts1 ts2 key vs)) \<and>
   tags_kept (swept self ts1 ts2 key) (snd (lpop self ts1 ts2 key)) \<and>
   tags_kept (swept self ts1 ts2 key) (snd (hset self ts1 ts2 key field x)) \<and>
   tags_kept (swept self ts1 ts2 key) (snd (hget self ts1 ts2 key field)) \<and>
   tags_kept (swept self ts1 ts2 key) (snd (sadd self ts1 ts2 key members)) \<and>
   tags_kept (swept self ts1 ts2 key) (snd (smembers self ts1 ts2 key)) \<and>
   tags_kept (swept self ts1 ts2 key) (snd (enforce_datatype dt True arity_error self ts1 ts2 key)) \<and>
   (map_of (kv (swept self ts1 ts2 key)) key = Some v \<longrightarrow>
      (data_type v \<noteq> QUEUE \<longrightarrow>
         fst (lpush self ts1 ts2 key vs) = Inl WRONGTYPE \<and>
         fst (lpop self ts1 ts2 key) = Inl WRONGTYPE) \<and>
      (data_type v \<noteq> HASH \<longrightarrow>
         fst (hset self ts1 ts2 key field x) = Inl WRONGTYPE \<and>
         fst (hget self ts1 ts2 key field) = Inl WRONGTYPE) \<and>
      (data_type v \<noteq> SET \<longrightarrow>
         fst (sadd self ts1 ts2 key members) = Inl WRONGTYPE \<and>
         fst (smembers self ts1 ts2 key) = Inl WRONGTYPE)) \<and>
   only_removes self (snd (kv_get self ts1 ts2 key)) \<and>
   only_removes self (snd (kv_exists self ts1 ts2 key)) \<and>
   only_removes self (snd (kv_delete self ts1 key)) \<and>
   only_removes self (snd (info self ts1)) \<and>
   kv (snd (expire self ts1 key seconds)) = kv self \<and>
   kv (fst (snd (save_to_disk self files filename))) = kv self \<and>
   kv (snd (client_quit self)) = kv self \<and>
   kv (snd (shutdown self)) = kv self \<and>
   kv (snd (flush_all self)) = [] \<and>
   kv_set self key x =
     (Inr (PStr ''OK''),
      self\<lparr>expiry_map := AList.delete key (expiry_map self),
           kv := AList.update key \<lparr>data_type = KV, val = x\<rparr> (kv self)\<rparr>) \<and>
   (files filename = Some st \<longrightarrow>
      kv (fst (snd (restore_from_disk self files filename))) = snap_kv st)"
proof -
  have exp: "kv (snd (expire self ts1 key seconds)) = kv self"
    by (simp add: expire_def Let_def split: sum.splits)
  have rest: "kv (fst (snd (save_to_disk self files filename))) = kv self"
    "kv (snd (client_quit self)) = kv self" "kv (snd (shutdown self)) = kv self"
    "kv (snd (flush_all self)) = []"
    "files filename = Some st \<longrightarrow>
       kv (fst (snd (restore_from_disk self files filename))) = snap_kv st"
    by (simp_all add: save_to_disk_def client_quit_def shutdown_def flush_all_def
          restore_from_disk_def)
  have typed: "tags_kept (swept self ts1 ts2 key) (snd (lpush self ts1 ts2 key vs))"
    "tags_kept (swept self ts1 ts2 key) (snd (lpop self ts1 ts2 key))"
    "tags_kept (swept self ts1 ts2 key) (snd (hset self ts1 ts2 key field x))"
    "tags_kept (swept self ts1 ts2 key) (snd (hget self ts1 ts2 key field))"
    "tags_kept (swept self ts1 ts2 key) (snd (sadd self ts1 ts2 key members))"
    "tags_kept (swept self ts1 ts2 key) (snd (smembers self ts1 ts2 key))"
    "tags_kept (swept self ts1 ts2 key) (snd (enforce_datatype dt True arity_error self ts1 ts2 key))"
    by (simp_all add: lpush_def lpop_def hset_def hget_def sadd_def smembers_def
          enforce_keeps_tags meths_keep_tags)
  have wrong: "map_of (kv (swept self ts1 ts2 key)) key = Some v \<longrightarrow>
      (data_type v \<noteq> QUEUE \<longrightarrow>
         fst (lpush self ts1 ts2 key vs) = Inl WRONGTYPE \<and>
         fst (lpop self ts1 ts2 key) = Inl WRONGTYPE) \<and>
      (data_type v \<noteq> HASH \<longrightarrow>
         fst (hset self ts1 ts2 key field x) = Inl WRONGTYPE \<and>
         fst (hget self ts1 ts2 key field) = Inl WRONGTYPE) \<and>
      (data_type v \<noteq> SET \<longrightarrow>
         fst (sadd self ts1 ts2 key members) = Inl WRONGTYPE \<and>
         fst (smembers self ts1 ts2 key) = Inl WRONGTYPE)"
    by (simp add: lpush_def lpop_def hset_def hget_def sadd_def smembers_def enforce_wrongtype)
  have set: "kv_set self key x =
     (Inr (PStr ''OK''),
      self\<lparr>expiry_map := AList.delete key (expiry_map self),
           kv := AList.update key \<lparr>data_type = KV, val = x\<rparr> (kv self)\<rparr>)"
    by (simp add: kv_set_def unexpire_def Let_def)
  from only_removes_swept[of self ts1 ts2 key] typed wrong
    untyped_only_remove exp rest set
  show ?thesis by blast
qed

text \<open>A file that holds a snapshot in which \<open>mylist\<close> is a string.\<close>

definition other_disk :: disk where
  "other_disk =
     [''other.dump'' \<mapsto>
        \<lparr>snap_kv = [(''mylist'', \<lparr>data_type = KV, val = PBytes ''v''\<rparr>)], snap_expiry_map = []\<rparr>]"

theorem typed_commands_keep_tags_witness:
  "map_of (kv (swept example_server 1 1 ''key1'')) ''key1'' =
     Some \<lparr>data_type = KV, val = PBytes ''value1''\<rparr> \<and>
   fst (lpush example_server 1 1 ''key1'' [PBytes ''c'']) = Inl WRONGTYPE \<and>
   fst (lpop example_server 1 1 ''key1'') = Inl WRONGTYPE \<and>
   fst (hset example_server 1 1 ''key1'' (PBytes ''f'') PNone) = Inl WRONGTYPE \<and>
   fst (hget example_server 1 1 ''key1'' (PBytes ''f'')) = Inl WRONGTYPE \<and>
   fst (sadd example_server 1 1 ''key1'' [PBytes ''c'']) = Inl WRONGTYPE \<and>
   fst (smembers example_server 1 1 ''key1'') = Inl WRONGTYPE \<and>
   map_of (kv (swept example_server 1 1 ''mylist'')) ''mylist'' =
     Some \<lparr>data_type = QUEUE, val = PList [PBytes ''b'', PBytes ''a'']\<rparr> \<and>
   (\<exists>v'. map_of (kv (snd (lpop example_server 1 1 ''mylist''))) ''mylist'' = Some v' \<and>
      data_type v' = QUEUE) \<and>
   other_disk ''other.dump'' =
     Some \<lparr>snap_kv = [(''mylist'', \<lparr>data_type = KV, val = PBytes ''v''\<rparr>)], snap_expiry_map = []\<rparr> \<and>
   kv (fst (snd (restore_from_disk example_server other_disk ''other.dump''))) =
     [(''mylist'', \<lparr>data_type = KV, val = PBytes ''v''\<rparr>)]"
proof -
  have idle: "swept example_server 1 1 k = example_server" for k
    by (simp add: swept_def clean_expired_def clean_loop.simps heap_root_def drop_if_expired_def
          check_expired_def example_server_def)
  have other: "map_of (kv (swept example_server 1 1 ''key1'')) ''key1'' =
      Some \<lparr>data_type = KV, val = PBytes ''value1''\<rparr>"
    unfolding idle by (simp add: example_server_def)
  have before: "map_of (kv (swept example_server 1 1 ''mylist'')) ''mylist'' =
      Some \<lparr>data_type = QUEUE, val = PList [PBytes ''b'', PBytes ''a'']\<rparr>"
    unfolding idle by (simp add: example_server_def)
  have stored: "other_disk ''other.dump'' =
      Some \<lparr>snap_kv = [(''mylist'', \<lparr>data_type = KV, val = PBytes ''v''\<rparr>)], snap_expiry_map = []\<rparr>"
    by (simp add: other_disk_def)
  note t = typed_commands_keep_tags[of example_server 1 1 "''key1''" "[PBytes ''c'']" "PBytes ''f''"
        PNone "[PBytes ''c'']" HASH "\<lparr>data_type = KV, val = PBytes ''value1''\<rparr>" PNone
        other_disk "''other.dump''"
        "\<lparr>snap_kv = [(''mylist'', \<lparr>data_type = KV, val = PBytes ''v''\<rparr>)], snap_expiry_map = []\<rparr>"]
  from t other stored have wrong: "fst (lpush example_server 1 1 ''key1'' [PBytes ''c'']) = Inl WRONGTYPE"
    "fst (lpop example_server 1 1 ''key1'') = Inl WRONGTYPE"
    "fst (hset example_server 1 1 ''key1'' (PBytes ''f'') PNone) = Inl WRONGTYPE"
    "fst (hget example_server 1 1 ''key1'' (PBytes ''f'')) = Inl WRONGTYPE"
    "fst (sadd example_server 1 1 ''key1'' [PBytes ''c'']) = Inl WRONGTYPE"
    "fst (smembers example_server 1 1 ''key1'') = Inl WRONGTYPE"
    "kv (fst (snd (restore_from_disk example_server other_disk ''other.dump''))) =
       [(''mylist'', \<lparr>data_type = KV, val = PBytes ''v''\<rparr>)]"
    by simp_all
  note u = typed_commands_keep_tags[of example_server 1 1 "''mylist''" "[PBytes ''c'']" "PBytes ''f''"
        PNone "[PBytes ''c'']" HASH "\<lparr>data_type = KV, val = PBytes ''value1''\<rparr>" PNone
        other_disk "''other.dump''"
        "\<lparr>snap_kv = [(''mylist'', \<lparr>data_type = KV, val = PBytes ''v''\<rparr>)], snap_expiry_map = []\<rparr>"]
  from u have "tags_kept (swept example_server 1 1 ''mylist'') (snd (lpop example_server 1 1 ''mylist''))"
    by blast
  with before have kept: "\<exists>v'. map_of (kv (snd (lpop example_server 1 1 ''mylist''))) ''mylist'' = Some v' \<and>
      data_type v' = QUEUE"
    unfolding tags_kept_def by fastforce
  from other wrong before kept stored show ?thesis
    by blast
qed

text \<open>
  The claim as stated fails for \<^verbatim>\<open>SET\<close> and for \<^verbatim>\<open>RESTORE\<close>: on a key that holds a list
  each succeeds, and the key holds a string afterwards.
\<close>

theorem tag_change_counterexample:
  "map_of (kv example_server) ''mylist'' =
     Some \<lparr>data_type = QUEUE, val = PList [PBytes ''b'', PBytes ''a'']\<rparr> \<and>
   fst (kv_set example_server ''mylist'' (PBytes ''v'')) = Inr (PStr ''OK'') \<and>
   map_of (kv (snd (kv_set example_server ''mylist'' (PBytes ''v'')))) ''mylist'' =
     Some \<lparr>data_type = KV, val = PBytes ''v''\<rparr> \<and>
   fst (restore_from_disk example_server other_disk ''other.dump'') = Inr (PInt 1) \<and>
   map_of (kv (fst (snd (restore_from_disk example_server other_disk ''other.dump'')))) ''mylist'' =
     Some \<lparr>data_type = KV, val = PBytes ''v''\<rparr>"
  by (simp add: kv_set_def unexpire_def example_server_def restore_from_disk_def other_disk_def
        Let_def)

section \<open>Command resolution\<close>

lemma upper_char_idem: "upper_char (upper_char c) = upper_char c"
proof (cases "CHR ''a'' \<le> c \<and> c \<le> CHR ''z''")
  case True
  define d where "d = char_of (of_char c - (32 :: nat))"
  from True have r: "97 \<le> (of_char c :: nat)" "(of_char c :: nat) \<le> 122"
    by (simp_all add: less_eq_char_def)
  then have "(of_char d :: nat) = of_char c - 32"
    by (simp add: d_def)
  with r have "\<not> CHR ''a'' \<le> d"
    by (simp add: less_eq_char_def)
  then have "upper_char d = d"
    by (simp add: upper_char_def)
  moreover from True have "upper_char c = d"
    by (simp add: upper_char_def d_def)
  ultimately show ?thesis by simp
next
  case False
  then have "upper_char c = c" by (auto simp: upper_char_def)
  then show ?thesis by simp
qed

lemma upper_idem: "upper (upper b) = upper b"
  by (simp add: upper_def upper_char_idem)

text \<open>
  Claim C9, as the code has it. A request with no element fails with the message
  \<^verbatim>\<open>Empty request\<close>. The first element, a byte string, is uppercased and looked up, so that
  the name is matched whatever its case; a name that is no command fails with the message
  \<^verbatim>\<open>Unknown command: \<close> followed by the Python literal of the uppercased name (\<^verbatim>\<open>b'NAME'\<close>).
  Both failures leave the engine state and the files as they were.
\<close>

theorem respond_resolution:
  "respond fr self files ts1 ts2 [] = (Inl (Error (MStr ''Empty request'')), self, files) \<and>
   (map_of get_commands (upper name) = None \<longrightarrow>
      respond fr self files ts1 ts2 (PBytes name # args) =
        (Inl (Error (MStr (''Unknown command: '' @ bytes_repr (upper name)))), self, files)) \<and>
   (\<forall>m. map_of get_commands (upper name) = Some m \<longrightarrow>
      respond fr self files ts1 ts2 (PBytes name # args) = call m self files ts1 ts2 args) \<and>
   respond fr self files ts1 ts2 (PBytes name # args) =
     respond fr self files ts1 ts2 (PBytes (upper name) # args)"
  by (auto simp: respond_def lookup_command_def format_value_def upper_idem Let_def
        split: option.splits)

lemma upper_get: "upper ''get'' = ''GET''" by code_simp
lemma upper_foo: "upper ''foo'' = ''FOO''" by code_simp

text \<open>
  The messages are not the ones of the claim: \<^verbatim>\<open>Empty request\<close> is not \<^verbatim>\<open>EMPTY REQUEST\<close>, and
  for the name \<open>foo\<close> the message ends in \<^verbatim>\<open>b'FOO'\<close>.
\<close>

theorem respond_messages_counterexample:
  "respond plain_repr example_server example_disk 1 1 [] =
     (Inl (Error (MStr ''Empty request'')), example_server, example_disk) \<and>
   ''Empty request'' \<noteq> ''EMPTY REQUEST'' \<and>
   respond plain_repr example_server example_disk 1 1 [PBytes ''foo''] =
     (Inl (Error (MStr (''Unknown command: b'' @ [CHR 0x27] @ ''FOO'' @ [CHR 0x27]))),
      example_server, example_disk) \<and>
   ''Unknown command: b'' @ [CHR 0x27] @ ''FOO'' @ [CHR 0x27] \<noteq> ''UNKNOWN COMMAND: FOO'' \<and>
   ''Unknown command: b'' @ [CHR 0x27] @ ''FOO'' @ [CHR 0x27] \<noteq> ''UNKNOWN COMMAND: foo''"
  by (simp add: respond_def lookup_command_def format_value_def upper_foo get_commands_def
        bytes_repr_def repr_byte_def Let_def)

theorem respond_resolution_witness:
  "map_of get_commands (upper ''foo'') = None \<and>
   map_of get_commands (upper ''get'') = Some Cmd_kv_get \<and>
   respond plain_repr example_server example_disk 1 1 [PBytes ''foo'', PBytes ''x''] =
     (Inl (Error (MStr (''Unknown command: b'' @ [CHR 0x27] @ ''FOO'' @ [CHR 0x27]))),
      example_server, example_disk) \<and>
   respond plain_repr example_server example_disk 1 1 [PBytes ''get'', PBytes ''key1''] =
     (Inr (PBytes ''value1''), example_server, example_disk)"
proof -
  have unknown: "map_of get_commands (upper ''foo'') = None"
    by (simp add: upper_foo get_commands_def)
  have known: "map_of get_commands (upper ''get'') = Some Cmd_kv_get"
    by (simp add: upper_get get_commands_def)
  have idle: "swept example_server 1 1 ''key1'' = example_server"
    by (simp add: swept_def clean_expired_def clean_loop.simps heap_root_def drop_if_expired_def
          check_expired_def example_server_def)
  have got: "call Cmd_kv_get example_server example_disk 1 1 [PBytes ''key1''] =
      (Inr (PBytes ''value1''), example_server, example_disk)"
    by (simp add: call_def with_disk_def kv_get_swept idle) (simp add: example_server_def)
  show ?thesis
    using unknown known got
      respond_resolution[of plain_repr example_server example_disk 1 1 "''foo''" "[PBytes ''x'']"]
      respond_resolution[of plain_repr example_server example_disk 1 1 "''get''" "[PBytes ''key1'']"]
    by (simp add: upper_foo bytes_repr_def repr_byte_def Let_def)
qed

section \<open>What the decoder raises\<close>


















text \<open>Numerals as \<open>int\<close> reads them, for the concrete runs.\<close>

lemmas int_eval = py_int_def strip_def is_space_def parse_nat_def is_digit_def digit_val_def
  max_str_digits_def





section \<open>Round trip\<close>














































text \<open>The definitions that a concrete run of the encoder unfolds.\<close>

lemmas fmt_eval = frame_of_def fmt_d_def int_fits_def max_str_digits_def decimal_def
  digits.simps digit_chr_def call_frame_def



lemma float_int_3_2: "float_int (Finite (3 / 2)) = Inr 1"
proof -
  have "\<lfloor>3 / 2 :: rat\<rfloor> = 1" by (rule floor_unique) simp_all
  then show ?thesis by (simp add: float_int_def)
qed

text \<open>
  Floats are not among the values of \<open>wire_ok\<close>. \<^verbatim>\<open>_write\<close> formats a float with \<^verbatim>\<open>%d\<close>: the
  float 1.5 is written as the frame \<^verbatim>\<open>:1\<close>, the frame of the integer 1, and that frame is
  decoded as the integer 1, which is not equal to 1.5.
\<close>

theorem float_round_trip_truncates:
  "write_data fw (PFloat (Finite (3 / 2))) = Inr ('':1'' @ CRLF) \<and>
   handle_request rt (Suc fr) ('':1'' @ CRLF) = Inr (PInt 1, []) \<and>
   \<not> key_eq (PInt 1) (PFloat (Finite (3 / 2))) \<and>
   write_data fw (PInt 1) = Inr ('':1'' @ CRLF)"
  by (simp add: float_int_3_2 fmt_eval handle_request.simps
        handle_integer_def rstrip_def int_eval)

end
